theory Spec2Isabelle
  imports Complex_Main
begin

section \<open>The point-cloud viewer (360view_direct.py)\<close>

subsection \<open>Point clouds and downsampling\<close>

text \<open>
  A point cloud is an array of positions and an optional array of colours of the same
  length (\<open>load_ply\<close> returns \<open>pts, cols\<close> with \<open>cols\<close> possibly \<open>None\<close>). The
  coordinates of points and of camera frames are modelled as real numbers; the focal length
  is computed in double precision (see the camera intrinsic).
\<close>

type_synonym vec3 = "real \<times> real \<times> real"

datatype py_error = ValueError | IndexError

text \<open>
  \<open>pts[idx]\<close> with an integer index array: the rows of \<open>pts\<close> at the positions of
  \<open>idx\<close>, in the order of \<open>idx\<close>. numpy raises IndexError for an index out of range.
\<close>

definition take_rows :: "'a list \<Rightarrow> nat list \<Rightarrow> py_error + 'a list" where
  "take_rows xs idx =
     (if list_all (\<lambda>i. i < length xs) idx then Inr (map (\<lambda>i. xs ! i) idx)
      else Inl IndexError)"

text \<open>
  \<open>np.random.choice(M, N, replace=False)\<close> is numpy's: it draws \<open>N\<close> of the numbers
  \<open>0 ..< M\<close> without replacement, and raises ValueError when \<open>N\<close> is negative or
  larger than \<open>M\<close>. The generator has no seed in the source, so the draw is a parameter
  of the model; \<open>choice_without_replacement M N idx\<close> says that \<open>idx\<close> is a result
  the call can return.
\<close>

definition choice_without_replacement :: "nat \<Rightarrow> int \<Rightarrow> nat list \<Rightarrow> bool" where
  "choice_without_replacement M N idx \<longleftrightarrow>
     0 \<le> N \<and> N \<le> int M \<and> int (length idx) = N \<and> distinct idx \<and> list_all (\<lambda>i. i < M) idx"

text \<open>
  \<open>downsample(pts, cols, max_points)\<close>, with the draw \<open>idx\<close> of the random generator
  made explicit. \<open>max_points\<close> is a Python int (\<open>--points\<close> has \<open>type=int\<close>).
\<close>

definition downsample ::
  "nat list \<Rightarrow> 'p list \<Rightarrow> 'c list option \<Rightarrow> int \<Rightarrow> py_error + ('p list \<times> 'c list option)" where
  "downsample idx pts cols max_points =
     (if int (length pts) > max_points then
        (if max_points < 0 then Inl ValueError
         else
           (case take_rows pts idx of
              Inl e \<Rightarrow> Inl e
            | Inr pts' \<Rightarrow>
                (case cols of
                   None \<Rightarrow> Inr (pts', None)
                 | Some cs \<Rightarrow>
                     (case take_rows cs idx of
                        Inl e \<Rightarrow> Inl e
                      | Inr cs' \<Rightarrow> Inr (pts', Some cs')))))
      else Inr (pts, cols))"

subsection \<open>Sign inversion (inside view)\<close>

text \<open>
  In \<open>show_open3d_viewer\<close>: \<open>if args.invert: pts = -pts\<close>. The colours are not touched.
\<close>

definition negate :: "vec3 \<Rightarrow> vec3" where
  "negate p = (case p of (x, y, z) \<Rightarrow> (- x, - y, - z))"

definition invert_points :: "bool \<Rightarrow> vec3 list \<times> vec3 list option \<Rightarrow> vec3 list \<times> vec3 list option" where
  "invert_points invert pc =
     (case pc of (pts, cols) \<Rightarrow> (if invert then map negate pts else pts, cols))"

subsection \<open>Double precision\<close>

text \<open>
  The doubles of IEEE 754 (binary64), as the real numbers they denote, with the rounding
  of every arithmetic operation: to the nearest double, ties to the even significand.
  \<open>binade x\<close> is the exponent of \<open>x\<close>, \<open>ulp x\<close> the distance of neighbouring doubles
  there (53 significant bits). Overflow and subnormal numbers are not modelled: the
  quantities computed below stay within \<open>1e-3\<close> and \<open>1e19\<close>.
\<close>

definition round_even :: "real \<Rightarrow> int" where
  "round_even q =
     (if q - of_int \<lfloor>q\<rfloor> < 1 / 2 then \<lfloor>q\<rfloor>
      else if 1 / 2 < q - of_int \<lfloor>q\<rfloor> then \<lfloor>q\<rfloor> + 1
      else if even \<lfloor>q\<rfloor> then \<lfloor>q\<rfloor> else \<lfloor>q\<rfloor> + 1)"

definition binade :: "real \<Rightarrow> int" where
  "binade x = \<lfloor>log 2 \<bar>x\<bar>\<rfloor>"

definition ulp :: "real \<Rightarrow> real" where
  "ulp x = 2 powr (of_int (binade x) - 52)"

definition rnd :: "real \<Rightarrow> real" where
  "rnd x = (if x = 0 then 0 else of_int (round_even (x / ulp x)) * ulp x)"

subsection \<open>Camera intrinsic\<close>

text \<open>
  \<open>np.radians\<close> and \<open>np.tan\<close> are numpy's (the tangent is the C library's): functions
  from doubles to doubles, parameters of the model.
\<close>

record numpy =
  np_radians :: "real \<Rightarrow> real"
  np_tan :: "real \<Rightarrow> real"

text \<open>
  The focal lengths are \<open>None\<close> when the division is by zero (numpy then gives \<open>inf\<close> or
  \<open>nan\<close> with a warning).
\<close>

record intrinsic =
  width :: int
  height :: int
  fx :: "real option"
  fy :: "real option"
  cx :: real
  cy :: real

text \<open>\<open>intrinsic.set_intrinsics(width, height, fx, fy, cx, cy)\<close> of Open3D stores its arguments.\<close>

definition set_intrinsics ::
  "int \<Rightarrow> int \<Rightarrow> real option \<Rightarrow> real option \<Rightarrow> real \<Rightarrow> real \<Rightarrow> intrinsic" where
  "set_intrinsics w h f1 f2 c1 c2 =
     \<lparr>width = w, height = h, fx = f1, fy = f2, cx = c1, cy = c2\<rparr>"

text \<open>
  The intrinsic block of \<open>show_open3d_viewer\<close> (lines 166-177). \<open>args.width\<close>,
  \<open>args.height\<close> and \<open>args.fov\<close> are ints (\<open>type=int\<close>), converted to doubles by the
  divisions; \<open>focal_length = intrinsic.width / (2.0 * np.tan(np.radians(args.fov / 2.0)))\<close>
  rounds after the halving, the doubling and the division.
\<close>

definition focal_length :: "numpy \<Rightarrow> int \<Rightarrow> int \<Rightarrow> real option" where
  "focal_length np w fov =
     (let half = rnd (rnd (of_int fov) / 2);
          d = rnd (2 * np_tan np (np_radians np half))
      in if d = 0 then None else Some (rnd (rnd (of_int w) / d)))"

definition camera_intrinsic :: "numpy \<Rightarrow> int \<Rightarrow> int \<Rightarrow> int \<Rightarrow> intrinsic" where
  "camera_intrinsic np w h fov =
     set_intrinsics w h (focal_length np w fov) (focal_length np w fov)
       (rnd (rnd (of_int w) / 2)) (rnd (rnd (of_int h) / 2))"

text \<open>
  numpy at 45 degrees: \<open>np.radians(45.0)\<close> is \<open>0.7853981633974483\<close>, the double
  \<open>884279719003555 / 2^50\<close>, and \<open>np.tan\<close> of it is \<open>0.9999999999999999\<close>, the double
  \<open>1 - 2^-53\<close>. Elsewhere the example takes the correctly rounded values.
\<close>

definition numpy_at_45 :: numpy where
  "numpy_at_45 =
     \<lparr>np_radians = (\<lambda>d. if d = 45 then 884279719003555 / 2 ^ 50 else rnd (d * pi / 180)),
      np_tan = (\<lambda>x. if x = 884279719003555 / 2 ^ 50 then 1 - 1 / 2 ^ 53 else rnd (tan x))\<rparr>"

subsection \<open>The rotation lock\<close>

text \<open>
  The 4x4 extrinsic, stored by the columns the callback works on: \<open>R[:, 0]\<close>,
  \<open>R[:, 1]\<close>, \<open>R[:, 2]\<close> of the rotation block \<open>extrinsic[:3, :3]\<close>, the translation
  \<open>extrinsic[:3, 3]\<close>, and the bottom row \<open>extrinsic[3, :]\<close>.
\<close>

record extrinsic =
  right_col :: vec3
  up_col :: vec3
  forward_col :: vec3
  translation :: vec3
  bottom_row :: "real \<times> real \<times> real \<times> real"

definition norm3 :: "vec3 \<Rightarrow> real" where
  "norm3 v = (case v of (x, y, z) \<Rightarrow> sqrt (x * x + y * y + z * z))"

definition scale_div :: "vec3 \<Rightarrow> real \<Rightarrow> vec3" where
  "scale_div v d = (case v of (x, y, z) \<Rightarrow> (x / d, y / d, z / d))"

definition cross :: "vec3 \<Rightarrow> vec3 \<Rightarrow> vec3" where
  "cross a b =
     (case a of (a0, a1, a2) \<Rightarrow> case b of (b0, b1, b2) \<Rightarrow>
        (a1 * b2 - a2 * b1, a2 * b0 - a0 * b2, a0 * b1 - a1 * b0))"

definition eps :: real where
  "eps = 1 / 10 ^ 10"

text \<open>
  \<open>lock_vertical_rotation\<close>, as a function of the stored \<open>initial_y\<close> and the extrinsic
  read from the view control; the result is the extrinsic written back. \<open>up\<close> and
  \<open>forward\<close> are numpy views of the columns of \<open>R\<close>: after \<open>R[:, 1] = up / norm(up)\<close>
  the name \<open>up\<close> reads the normalised column, which is what \<open>np.cross\<close> gets.
\<close>

definition lock_vertical_rotation :: "real \<Rightarrow> extrinsic \<Rightarrow> extrinsic" where
  "lock_vertical_rotation initial_y e =
     (let t = (case translation e of (tx, ty, tz) \<Rightarrow> (tx, initial_y, tz));
          up0 = (case up_col e of (ux, uy, uz) \<Rightarrow> (0, if uy < 0 then - 1 else 1, 0));
          up = scale_div up0 (norm3 up0);
          fwd0 = (case forward_col e of (gx, gy, gz) \<Rightarrow> (gx, 0, gz));
          forward = scale_div fwd0 (norm3 fwd0 + eps);
          right0 = cross up forward;
          right = scale_div right0 (norm3 right0 + eps)
      in e\<lparr>right_col := right, up_col := up, forward_col := forward, translation := t\<rparr>)"






section \<open>The REST proxy (app_flask.py)\<close>

subsection \<open>JSON values and Python's view of them\<close>

text \<open>
  The values \<open>json.loads\<close> produces: \<open>None\<close>, \<open>bool\<close>, \<open>int\<close>, \<open>float\<close>, \<open>str\<close>, \<open>list\<close>
  and \<open>dict\<close>. A dict is an association list read with \<open>map_of\<close> (the first entry of a
  key counts). Strings are byte strings (UTF-8).
\<close>

datatype json =
    JNull
  | JBool bool
  | JInt int
  | JFloat real
  | JStr string
  | JArr "json list"
  | JObj "(string \<times> json) list"

text \<open>Python's truth value (\<open>bool(v)\<close>, \<open>if v\<close>, \<open>not v\<close>, \<open>v or d\<close>).\<close>

fun truthy :: "json \<Rightarrow> bool" where
  "truthy JNull = False"
| "truthy (JBool b) = b"
| "truthy (JInt n) = (n \<noteq> 0)"
| "truthy (JFloat x) = (x \<noteq> 0)"
| "truthy (JStr s) = (s \<noteq> [])"
| "truthy (JArr xs) = (xs \<noteq> [])"
| "truthy (JObj kvs) = (kvs \<noteq> [])"

text \<open>\<open>v or {}\<close>.\<close>

definition or_empty :: "json \<Rightarrow> json" where
  "or_empty v = (if truthy v then v else JObj [])"

text \<open>
  The exceptions the handlers can meet. \<open>RuntimeError\<close> carries its message (the handlers
  return it); the others end in the catch-all \<open>except Exception\<close>. \<open>BadRequest\<close> is
  werkzeug's (an \<open>Exception\<close>), \<open>LibraryError\<close> stands for what \<open>base64\<close>, \<open>requests\<close>,
  \<open>os\<close> and \<open>trimesh\<close> raise.
\<close>

datatype pyexc =
    RuntimeError string
  | AttributeError
  | TypeError
  | BadRequest
  | LibraryError string

text \<open>\<open>d.get(k, dflt)\<close>: only a dict has \<open>get\<close>.\<close>

definition dict_get :: "json \<Rightarrow> string \<Rightarrow> json \<Rightarrow> pyexc + json" where
  "dict_get d k dflt =
     (case d of
        JObj kvs \<Rightarrow> Inr (case map_of kvs k of None \<Rightarrow> dflt | Some v \<Rightarrow> v)
      | _ \<Rightarrow> Inl AttributeError)"

text \<open>
  \<open>str.lower()\<close> on the ASCII letters; other bytes stay. No character outside ASCII
  lower-cases to a letter of the words the source compares with (\<open>true\<close>, \<open>on\<close>, \<open>yes\<close>,
  \<open>glb\<close>, \<open>obj\<close>, \<open>ply\<close>), so the comparisons agree with Python's.
\<close>

definition lower_char :: "char \<Rightarrow> char" where
  "lower_char c =
     (case map_of (zip ''ABCDEFGHIJKLMNOPQRSTUVWXYZ'' ''abcdefghijklmnopqrstuvwxyz'') c of
        None \<Rightarrow> c
      | Some l \<Rightarrow> l)"

definition lower :: "string \<Rightarrow> string" where
  "lower s = map lower_char s"

definition startswith :: "string \<Rightarrow> string \<Rightarrow> bool" where
  "startswith s p \<longleftrightarrow> take (length p) s = p"

subsection \<open>Requests, responses, the outside world\<close>

text \<open>
  What the handlers read of a Flask request that werkzeug reads: the form fields, the files
  and the JSON body it hands over. A request werkzeug gives up on while reading (more form
  parts than it accepts, JSON nested deeper than the interpreter recurses) is not a value
  of this record. \<open>json_body\<close> is the parsed body of a JSON request, \<open>None\<close> when the body
  is not valid JSON (an empty body is not): then \<open>request.json\<close> raises werkzeug's
  \<open>BadRequest\<close> and \<open>request.get_json(silent=True)\<close> returns \<open>None\<close>.
  \<open>is_json\<close> is werkzeug's reading of the mimetype (\<open>application/json\<close> or
  \<open>application/*+json\<close>).
\<close>

record upload =
  filename :: string
  data :: string

record request =
  content_type :: "string option"
  is_json :: bool
  json_body :: "json option"
  form :: "(string \<times> string) list"
  files :: "(string \<times> upload) list"
  args :: "(string \<times> string) list"

text \<open>
  A response: \<open>jsonify(body), status\<close>; the catch-all
  \<open>jsonify({"error": "Internal server error", "detail": str(e)}), 500\<close>; the failed
  conversion \<open>jsonify({"error": f"Conversion to {fmt} failed", "detail": str(ce)}), 500\<close>;
  and \<open>send_file\<close> of bytes with a mimetype and a download name.
\<close>

datatype response =
    Json json int
  | InternalServerError pyexc
  | ConversionFailed string pyexc
  | SendFile string string string

fun status_code :: "response \<Rightarrow> int" where
  "status_code (Json body code) = code"
| "status_code (InternalServerError e) = 500"
| "status_code (ConversionFailed fmt e) = 500"
| "status_code (SendFile bytes mimetype name) = 200"

text \<open>What \<open>requests\<close> returns: \<open>ok\<close>, \<open>status_code\<close>, \<open>json()\<close> (which can raise), \<open>text\<close>, \<open>content\<close>.\<close>

record http_response =
  resp_ok :: bool
  resp_status_code :: int
  resp_json :: "pyexc + json"
  resp_text :: string
  resp_content :: string

text \<open>
  The configuration and the collaborators of the module: the environment variables,
  \<open>base64.b64decode\<close> (lenient about characters outside the alphabet, raising
  \<open>binascii.Error\<close> on bad padding), the remote service behind \<open>requests\<close>,
  \<open>os.makedirs\<close> (\<open>None\<close> when it succeeds) and the \<open>trimesh\<close> conversion of GLB bytes
  to a format.
\<close>

record world =
  MESHY_API_KEY :: "string option"
  MESHY_API_URL :: string
  b64decode :: "string \<Rightarrow> pyexc + string"
  http_post :: "string \<Rightarrow> (string \<times> string) list \<Rightarrow> json \<Rightarrow> pyexc + http_response"
  http_get :: "string \<Rightarrow> (string \<times> string) list \<Rightarrow> pyexc + http_response"
  makedirs :: "string \<Rightarrow> pyexc option"
  convert :: "string \<Rightarrow> string \<Rightarrow> pyexc + string"

text \<open>
  What a handler does to the outside, in order: the HTTP requests it issues (URL, headers,
  JSON payload), the upload it tries to store, the directory and the metadata file of a task.
\<close>

datatype event =
    HttpPost string "(string \<times> string) list" json
  | HttpGet string "(string \<times> string) list"
  | WriteUpload string string
  | MakeDirs string
  | WriteMeta string json

fun is_network :: "event \<Rightarrow> bool" where
  "is_network (HttpPost url hs payload) = True"
| "is_network (HttpGet url hs) = True"
| "is_network (WriteUpload name bytes) = False"
| "is_network (MakeDirs task) = False"
| "is_network (WriteMeta task meta) = False"

text \<open>The two \<open>except\<close> clauses every handler ends with.\<close>

fun handle_exc :: "pyexc \<Rightarrow> response" where
  "handle_exc (RuntimeError m) = Json (JObj [(''error'', JStr m)]) 500"
| "handle_exc AttributeError = InternalServerError AttributeError"
| "handle_exc TypeError = InternalServerError TypeError"
| "handle_exc BadRequest = InternalServerError BadRequest"
| "handle_exc (LibraryError m) = InternalServerError (LibraryError m)"

subsection \<open>The credential\<close>

text \<open>The message of \<open>_meshy_headers\<close>, as UTF-8 bytes.\<close>

definition key_missing_message :: string where
  "key_missing_message =
     ''MESHY_API_KEY'' @
     [CHR 0xEA, CHR 0xB0, CHR 0x80] @
     '' '' @
     [CHR 0xEC, CHR 0x84, CHR 0xA4, CHR 0xEC, CHR 0xA0, CHR 0x95, CHR 0xEB, CHR 0x90, CHR 0x98, CHR 0xEC, CHR 0xA7, CHR 0x80] @
     '' '' @
     [CHR 0xEC, CHR 0x95, CHR 0x8A, CHR 0xEC, CHR 0x95, CHR 0x98, CHR 0xEC, CHR 0x8A, CHR 0xB5, CHR 0xEB, CHR 0x8B, CHR 0x88, CHR 0xEB, CHR 0x8B, CHR 0xA4] @
     ''. '' @
     [CHR 0xED, CHR 0x99, CHR 0x98, CHR 0xEA, CHR 0xB2, CHR 0xBD] @
     '' '' @
     [CHR 0xEB, CHR 0xB3, CHR 0x80, CHR 0xEC, CHR 0x88, CHR 0x98, CHR 0xEB, CHR 0x82, CHR 0x98] @
     '' .env '' @
     [CHR 0xED, CHR 0x8C, CHR 0x8C, CHR 0xEC, CHR 0x9D, CHR 0xBC, CHR 0xEC, CHR 0x97, CHR 0x90] @
     '' '' @
     [CHR 0xED, CHR 0x82, CHR 0xA4, CHR 0xEB, CHR 0xA5, CHR 0xBC] @
     '' '' @
     [CHR 0xEC, CHR 0xB6, CHR 0x94, CHR 0xEA, CHR 0xB0, CHR 0x80, CHR 0xED, CHR 0x95, CHR 0xB4, CHR 0xEC, CHR 0xA3, CHR 0xBC, CHR 0xEC, CHR 0x84, CHR 0xB8, CHR 0xEC, CHR 0x9A, CHR 0x94] @
     ''.''"

text \<open>\<open>not MESHY_API_KEY\<close> holds for an unset variable and for an empty one.\<close>

definition meshy_headers :: "world \<Rightarrow> pyexc + (string \<times> string) list" where
  "meshy_headers w =
     (case MESHY_API_KEY w of
        None \<Rightarrow> Inl (RuntimeError key_missing_message)
      | Some k \<Rightarrow>
          if k = [] then Inl (RuntimeError key_missing_message)
          else Inr [(''Authorization'', ''Bearer '' @ k)])"

subsection \<open>POST /api/process-image\<close>

text \<open>
  \<open>request.json\<close> (the parsed body, or \<open>BadRequest\<close>) and
  \<open>request.get_json(silent=True)\<close> (the parsed body, or \<open>None\<close>).
\<close>

definition request_json :: "request \<Rightarrow> pyexc + json" where
  "request_json r = (case json_body r of None \<Rightarrow> Inl BadRequest | Some v \<Rightarrow> Inr v)"

definition get_json_silent :: "request \<Rightarrow> json" where
  "get_json_silent r = (case json_body r of None \<Rightarrow> JNull | Some v \<Rightarrow> v)"

text \<open>
  \<open>get_flag(name, default)\<close>, the local function of \<open>process_image\<close>: from the JSON
  body the truth value of the field, from the form whether the lower-cased field is one of
  \<open>1\<close>, \<open>true\<close>, \<open>on\<close>, \<open>yes\<close>; the default when the field is missing.
\<close>

definition get_flag :: "request \<Rightarrow> string \<Rightarrow> bool \<Rightarrow> pyexc + bool" where
  "get_flag r name dflt =
     (if is_json r then
        (case request_json r of
           Inl e \<Rightarrow> Inl e
         | Inr body \<Rightarrow>
             (case dict_get (or_empty body) name (JBool dflt) of
                Inl e \<Rightarrow> Inl e
              | Inr val \<Rightarrow> Inr (truthy val)))
      else
        (case map_of (form r) name of
           None \<Rightarrow> Inr dflt
         | Some s \<Rightarrow> Inr (lower s \<in> {''1'', ''true'', ''on'', ''yes''})))"

text \<open>The \<open>ai_model\<close> as read (lines 186-189), and its validation (lines 191-192).\<close>

definition raw_ai_model :: "request \<Rightarrow> pyexc + json" where
  "raw_ai_model r =
     (if is_json r then
        (case request_json r of
           Inl e \<Rightarrow> Inl e
         | Inr body \<Rightarrow> dict_get (or_empty body) ''ai_model'' (JStr ''latest''))
      else
        Inr (case map_of (form r) ''ai_model'' of None \<Rightarrow> JStr ''latest'' | Some s \<Rightarrow> JStr s))"

definition validate_ai_model :: "json \<Rightarrow> string" where
  "validate_ai_model ai_model =
     (case ai_model of
        JStr s \<Rightarrow> if s \<in> {''latest'', ''meshy-5''} then s else ''latest''
      | _ \<Rightarrow> ''latest'')"

record options =
  enable_pbr :: bool
  should_remesh :: bool
  should_texture :: bool
  ai_model :: string

definition parse_options :: "request \<Rightarrow> pyexc + options" where
  "parse_options r =
     (case get_flag r ''enable_pbr'' True of
        Inl e \<Rightarrow> Inl e
      | Inr pbr \<Rightarrow>
     (case get_flag r ''should_remesh'' True of
        Inl e \<Rightarrow> Inl e
      | Inr remesh \<Rightarrow>
     (case get_flag r ''should_texture'' True of
        Inl e \<Rightarrow> Inl e
      | Inr texture \<Rightarrow>
     (case raw_ai_model r of
        Inl e \<Rightarrow> Inl e
      | Inr raw \<Rightarrow>
          Inr \<lparr>enable_pbr = pbr, should_remesh = remesh, should_texture = texture,
               ai_model = validate_ai_model raw\<rparr>))))"

text \<open>
  The image input (lines 195-217): the three variables the block sets, an early return
  (415), or an exception.
\<close>

record image_input =
  image_bytes :: "string option"
  image_data_url :: "json option"
  original_filename :: "string option"

datatype 'a flow = Next 'a | Return response | Raise pyexc

text \<open>
  \<open>request.content_type and request.content_type.startswith("multipart/form-data")\<close>.
\<close>

definition is_multipart :: "request \<Rightarrow> bool" where
  "is_multipart r =
     (case content_type r of
        None \<Rightarrow> False
      | Some ct \<Rightarrow> ct \<noteq> [] \<and> startswith ct ''multipart/form-data'')"

text \<open>\<open>b64.split(",", 1)[1]\<close>, used when \<open>"," in b64\<close>: what follows the first comma.\<close>

definition after_first_comma :: "string \<Rightarrow> string" where
  "after_first_comma s = tl (dropWhile (\<lambda>c. c \<noteq> CHR '','') s)"

definition strip_data_uri_prefix :: "string \<Rightarrow> string" where
  "strip_data_uri_prefix s = (if CHR '','' \<in> set s then after_first_comma s else s)"

definition no_image :: image_input where
  "no_image = \<lparr>image_bytes = None, image_data_url = None, original_filename = None\<rparr>"

text \<open>
  The base64 branch on a truthy \<open>image_base64\<close>: a string is stripped and decoded; on
  any other value \<open>"," in b64\<close>, \<open>b64.split\<close> or \<open>base64.b64decode\<close> raises.
\<close>

definition decode_image_base64 :: "world \<Rightarrow> json \<Rightarrow> image_input flow" where
  "decode_image_base64 w b64 =
     (case b64 of
        JStr s \<Rightarrow>
          (case b64decode w (strip_data_uri_prefix s) of
             Inl e \<Rightarrow> Raise e
           | Inr bytes \<Rightarrow>
               Next \<lparr>image_bytes = Some bytes, image_data_url = None, original_filename = None\<rparr>)
      | JArr xs \<Rightarrow> Raise (if JStr '','' \<in> set xs then AttributeError else TypeError)
      | JObj kvs \<Rightarrow> Raise (if '','' \<in> set (map fst kvs) then AttributeError else TypeError)
      | _ \<Rightarrow> Raise TypeError)"

text \<open>
  The three branches: a multipart upload (a file with a name), a JSON body (base64 first,
  then the URL), anything else.
\<close>

definition parse_image :: "world \<Rightarrow> request \<Rightarrow> image_input flow" where
  "parse_image w r =
     (if is_multipart r then
        (case map_of (files r) ''image'' of
           None \<Rightarrow> Next no_image
         | Some file \<Rightarrow>
             if filename file \<noteq> [] then
               Next \<lparr>image_bytes = Some (data file), image_data_url = None,
                     original_filename = Some (filename file)\<rparr>
             else Next no_image)
      else if is_json r then
        (case dict_get (or_empty (get_json_silent r)) ''image_base64'' JNull of
           Inl e \<Rightarrow> Raise e
         | Inr b64 \<Rightarrow>
        (case dict_get (or_empty (get_json_silent r)) ''image_url'' JNull of
           Inl e \<Rightarrow> Raise e
         | Inr image_url_direct \<Rightarrow>
             if truthy b64 then decode_image_base64 w b64
             else if truthy image_url_direct then
               Next \<lparr>image_bytes = None, image_data_url = Some image_url_direct,
                     original_filename = None\<rparr>
             else Next no_image))
      else Return (Json (JObj [(''error'', JStr ''Unsupported content type'')]) 415))"

definition no_image_response :: response where
  "no_image_response =
     Json (JObj [(''error'',
       JStr (''No image provided. Use multipart '' @ [CHR 0x27] @ ''image'' @ [CHR 0x27] @
             '' or JSON '' @ [CHR 0x27] @ ''image_base64'' @ [CHR 0x27] @ ''/'' @
             [CHR 0x27] @ ''image_url'' @ [CHR 0x27] @ ''.''))]) 400"

text \<open>The payload sent to Meshy (lines 238-244) and the metadata stored (lines 260-268).\<close>

definition meshy_payload :: "json \<Rightarrow> options \<Rightarrow> json" where
  "meshy_payload image_url opts =
     JObj [(''image_url'', image_url),
           (''enable_pbr'', JBool (enable_pbr opts)),
           (''should_remesh'', JBool (should_remesh opts)),
           (''should_texture'', JBool (should_texture opts)),
           (''ai_model'', JStr (ai_model opts))]"

definition task_meta :: "string option \<Rightarrow> options \<Rightarrow> json" where
  "task_meta name opts =
     JObj [(''original_filename'', (case name of None \<Rightarrow> JNull | Some n \<Rightarrow> JStr n)),
           (''options'',
              JObj [(''enable_pbr'', JBool (enable_pbr opts)),
                    (''should_remesh'', JBool (should_remesh opts)),
                    (''should_texture'', JBool (should_texture opts)),
                    (''ai_model'', JStr (ai_model opts))])]"

text \<open>
  \<open>_save_meta\<close>: \<open>os.path.join\<close> raises TypeError for a task id that is not a string,
  \<open>os.makedirs\<close> is outside the \<open>try\<close>, a failure to write the file is only logged.
\<close>

definition save_meta :: "world \<Rightarrow> json \<Rightarrow> json \<Rightarrow> pyexc option \<times> event list" where
  "save_meta w task_id meta =
     (case task_id of
        JStr t \<Rightarrow>
          (case makedirs w t of
             Some e \<Rightarrow> (Some e, [MakeDirs t])
           | None \<Rightarrow> (None, [MakeDirs t, WriteMeta t meta]))
      | _ \<Rightarrow> (Some TypeError, []))"

text \<open>
  Put events in front of the events of what follows.
\<close>

definition with_events :: "event list \<Rightarrow> response \<times> event list \<Rightarrow> response \<times> event list" where
  "with_events evs out = (fst out, evs @ snd out)"

text \<open>Lines 238-271: the call of Meshy and what follows it.\<close>

definition create_job :: "world \<Rightarrow> options \<Rightarrow> json \<Rightarrow> string option \<Rightarrow> response \<times> event list" where
  "create_job w opts image_url name =
     (case meshy_headers w of
        Inl e \<Rightarrow> (handle_exc e, [])
      | Inr hs \<Rightarrow>
          with_events [HttpPost (MESHY_API_URL w) hs (meshy_payload image_url opts)]
            (case http_post w (MESHY_API_URL w) hs (meshy_payload image_url opts) of
               Inl e \<Rightarrow> (handle_exc e, [])
             | Inr resp \<Rightarrow>
                 if \<not> resp_ok resp then
                   (Json (JObj [(''error'', JStr ''Meshy create failed''),
                                (''detail'',
                                   (case resp_json resp of
                                      Inl e \<Rightarrow> JObj [(''text'', JStr (resp_text resp))]
                                    | Inr detail \<Rightarrow> detail))])
                      (resp_status_code resp), [])
                 else
                   (case resp_json resp of
                      Inl e \<Rightarrow> (handle_exc e, [])
                    | Inr body \<Rightarrow>
                        (case dict_get (or_empty body) ''result'' JNull of
                           Inl e \<Rightarrow> (handle_exc e, [])
                         | Inr task_id \<Rightarrow>
                             if \<not> truthy task_id then
                               (Json (JObj [(''error'', JStr ''Invalid Meshy response''),
                                            (''detail'', body)]) 502, [])
                             else
                               (case save_meta w task_id (task_meta name opts) of
                                  (Some e, evs) \<Rightarrow> (handle_exc e, evs)
                                | (None, evs) \<Rightarrow>
                                    (Json (JObj [(''task_id'', task_id)]) 202, evs))))))"

text \<open>
  The name the upload is stored under is built from a time stamp, a random id and
  \<open>original_filename or 'upload'\<close>; the event keeps the last part and the bytes.
\<close>

definition upload_name :: "string option \<Rightarrow> string" where
  "upload_name name =
     (case name of None \<Rightarrow> ''upload'' | Some n \<Rightarrow> if n = [] then ''upload'' else n)"

text \<open>\<open>base64.b64encode\<close>: three bytes give four symbols, the last group is padded.\<close>

definition b64_symbol :: "nat \<Rightarrow> char" where
  "b64_symbol n =
     ''ABCDEFGHIJKLMNOPQRSTUVWXYZabcdefghijklmnopqrstuvwxyz0123456789+/'' ! n"

fun b64_groups :: "nat list \<Rightarrow> string" where
  "b64_groups (a # b # c # rest) =
     [b64_symbol (a div 4), b64_symbol ((a mod 4) * 16 + b div 16),
      b64_symbol ((b mod 16) * 4 + c div 64), b64_symbol (c mod 64)] @ b64_groups rest"
| "b64_groups [a, b] =
     [b64_symbol (a div 4), b64_symbol ((a mod 4) * 16 + b div 16),
      b64_symbol ((b mod 16) * 4), CHR ''='']"
| "b64_groups [a] = [b64_symbol (a div 4), b64_symbol ((a mod 4) * 16), CHR ''='', CHR ''='']"
| "b64_groups [] = []"

definition b64encode :: "string \<Rightarrow> string" where
  "b64encode bytes = b64_groups (map of_char bytes)"

definition data_url :: "string \<Rightarrow> json" where
  "data_url bytes = JStr (''data:image/png;base64,'' @ b64encode bytes)"

text \<open>
  The handler: options, image input, the check that there is an image, the stored upload,
  the call of Meshy. The result is the response and what was done to the outside.
\<close>

definition process_image :: "world \<Rightarrow> request \<Rightarrow> response \<times> event list" where
  "process_image w r =
     (case parse_options r of
        Inl e \<Rightarrow> (handle_exc e, [])
      | Inr opts \<Rightarrow>
          (case parse_image w r of
             Raise e \<Rightarrow> (handle_exc e, [])
           | Return resp \<Rightarrow> (resp, [])
           | Next img \<Rightarrow>
               (case image_bytes img of
                  None \<Rightarrow>
                    (case image_data_url img of
                       None \<Rightarrow> (no_image_response, [])
                     | Some url \<Rightarrow> create_job w opts url (original_filename img))
                | Some bytes \<Rightarrow>
                    with_events [WriteUpload (upload_name (original_filename img)) bytes]
                      (create_job w opts
                         (case image_data_url img of
                            None \<Rightarrow> data_url bytes
                          | Some url \<Rightarrow> url)
                         (original_filename img)))))"

subsection \<open>GET /api/status/<task_id>\<close>

text \<open>
  \<open>f"{MESHY_API_URL}/{task_id}"\<close>, the projection of the status fields, the handler.
\<close>

definition task_url :: "world \<Rightarrow> string \<Rightarrow> string" where
  "task_url w task_id = MESHY_API_URL w @ ''/'' @ task_id"

definition status_projection :: "json \<Rightarrow> pyexc + json" where
  "status_projection body =
     (case dict_get (or_empty body) ''status'' JNull of
        Inl e \<Rightarrow> Inl e
      | Inr st \<Rightarrow>
     (case dict_get (or_empty body) ''progress'' JNull of
        Inl e \<Rightarrow> Inl e
      | Inr progress \<Rightarrow>
     (case dict_get (or_empty body) ''message'' JNull of
        Inl e \<Rightarrow> Inl e
      | Inr message \<Rightarrow>
     (case dict_get (or_empty body) ''model_urls'' JNull of
        Inl e \<Rightarrow> Inl e
      | Inr model_urls \<Rightarrow>
          Inr (JObj [(''status'', st), (''progress'', progress), (''message'', message),
                     (''model_urls'', model_urls)])))))"

definition get_status :: "world \<Rightarrow> string \<Rightarrow> response \<times> event list" where
  "get_status w task_id =
     (case meshy_headers w of
        Inl e \<Rightarrow> (handle_exc e, [])
      | Inr hs \<Rightarrow>
          with_events [HttpGet (task_url w task_id) hs]
            (case http_get w (task_url w task_id) hs of
               Inl e \<Rightarrow> (handle_exc e, [])
             | Inr resp \<Rightarrow>
                 if \<not> resp_ok resp then
                   (Json (JObj [(''error'', JStr ''Meshy status failed''),
                                (''detail'',
                                   (case resp_json resp of
                                      Inl e \<Rightarrow> JObj [(''text'', JStr (resp_text resp))]
                                    | Inr detail \<Rightarrow> detail))])
                      (resp_status_code resp), [])
                 else
                   (case resp_json resp of
                      Inl e \<Rightarrow> (handle_exc e, [])
                    | Inr body \<Rightarrow>
                        (case status_projection body of
                           Inl e \<Rightarrow> (handle_exc e, [])
                         | Inr out \<Rightarrow> (Json out 200, [])))))"

subsection \<open>GET /api/result/<task_id>\<close>

text \<open>\<open>(request.args.get("format") or "glb").lower()\<close>.\<close>

definition requested_format :: "request \<Rightarrow> string" where
  "requested_format r =
     lower (case map_of (args r) ''format'' of
              None \<Rightarrow> ''glb''
            | Some f \<Rightarrow> if f = [] then ''glb'' else f)"

definition unsupported_format_response :: response where
  "unsupported_format_response =
     Json (JObj [(''error'', JStr ''Unsupported format''),
                 (''allowed'', JArr [JStr ''glb'', JStr ''obj'', JStr ''ply''])]) 400"

text \<open>
  The download and the conversion (lines 385-414). \<open>requests.get\<close> is given the URL found
  in the status, without headers; a value that is not a string is no URL and \<open>requests\<close>
  raises before sending anything. The content is used whatever the status of the reply.
\<close>

definition fetch_model :: "world \<Rightarrow> string \<Rightarrow> string \<Rightarrow> json \<Rightarrow> response \<times> event list" where
  "fetch_model w task_id fmt model_url =
     (case model_url of
        JStr url \<Rightarrow>
          with_events [HttpGet url []]
            (case http_get w url [] of
               Inl e \<Rightarrow> (handle_exc e, [])
             | Inr resp \<Rightarrow>
                 if fmt = ''glb'' then
                   (SendFile (resp_content resp) ''model/gltf-binary'' (task_id @ ''.glb''), [])
                 else
                   (case convert w fmt (resp_content resp) of
                      Inl ce \<Rightarrow> (ConversionFailed fmt ce, [])
                    | Inr out_bytes \<Rightarrow>
                        (SendFile out_bytes ''application/octet-stream''
                           (task_id @ ''.'' @ fmt), [])))
      | _ \<Rightarrow> (handle_exc (LibraryError ''requests: invalid URL''), []))"

text \<open>
  The handler: the format check comes first, outside the \<open>try\<close>; then the status
  request, the checks on its answer, and the download.
\<close>

definition get_result :: "world \<Rightarrow> request \<Rightarrow> string \<Rightarrow> response \<times> event list" where
  "get_result w r task_id =
     (if requested_format r \<notin> {''glb'', ''obj'', ''ply''} then (unsupported_format_response, [])
      else
        (case meshy_headers w of
           Inl e \<Rightarrow> (handle_exc e, [])
         | Inr hs \<Rightarrow>
             with_events [HttpGet (task_url w task_id) hs]
               (case http_get w (task_url w task_id) hs of
                  Inl e \<Rightarrow> (handle_exc e, [])
                | Inr sresp \<Rightarrow>
                    if \<not> resp_ok sresp then
                      (Json (JObj [(''error'', JStr ''Failed to get status from Meshy'')])
                         (resp_status_code sresp), [])
                    else
                      (case resp_json sresp of
                         Inl e \<Rightarrow> (handle_exc e, [])
                       | Inr body \<Rightarrow>
                           (case dict_get (or_empty body) ''status'' JNull of
                              Inl e \<Rightarrow> (handle_exc e, [])
                            | Inr st \<Rightarrow>
                                if st \<noteq> JStr ''SUCCEEDED'' then
                                  (Json (JObj [(''error'', JStr ''Job not completed''),
                                               (''status'', st)]) 409, [])
                                else
                                  (case dict_get (or_empty body) ''model_urls'' JNull of
                                     Inl e \<Rightarrow> (handle_exc e, [])
                                   | Inr urls \<Rightarrow>
                                       (case dict_get (or_empty urls) ''glb'' JNull of
                                          Inl e \<Rightarrow> (handle_exc e, [])
                                        | Inr model_url \<Rightarrow>
                                            if \<not> truthy model_url then
                                              (Json (JObj [(''error'',
                                                 JStr ''GLB URL missing in Meshy response'')]) 502, [])
                                            else fetch_model w task_id (requested_format r)
                                                   model_url)))))))"

subsection \<open>Observations on a run, and example inputs\<close>

text \<open>The payloads posted and the metadata stored during a run, in order.\<close>

fun posted_payloads :: "event list \<Rightarrow> json list" where
  "posted_payloads [] = []"
| "posted_payloads (HttpPost url hs payload # evs) = payload # posted_payloads evs"
| "posted_payloads (HttpGet url hs # evs) = posted_payloads evs"
| "posted_payloads (WriteUpload name bytes # evs) = posted_payloads evs"
| "posted_payloads (MakeDirs task # evs) = posted_payloads evs"
| "posted_payloads (WriteMeta task meta # evs) = posted_payloads evs"

fun stored_metas :: "event list \<Rightarrow> json list" where
  "stored_metas [] = []"
| "stored_metas (HttpPost url hs payload # evs) = stored_metas evs"
| "stored_metas (HttpGet url hs # evs) = stored_metas evs"
| "stored_metas (WriteUpload name bytes # evs) = stored_metas evs"
| "stored_metas (MakeDirs task # evs) = stored_metas evs"
| "stored_metas (WriteMeta task meta # evs) = meta # stored_metas evs"

text \<open>\<open>payload["ai_model"]\<close> and \<open>meta["options"]["ai_model"]\<close>.\<close>

definition payload_ai_model :: "json \<Rightarrow> pyexc + json" where
  "payload_ai_model payload = dict_get payload ''ai_model'' JNull"

definition meta_ai_model :: "json \<Rightarrow> pyexc + json" where
  "meta_ai_model meta =
     (case dict_get meta ''options'' JNull of
        Inl e \<Rightarrow> Inl e
      | Inr opts \<Rightarrow> dict_get opts ''ai_model'' JNull)"

text \<open>
  A world with a credential, in which Meshy accepts every job as \<open>task-1\<close> and reports it
  as pending; \<open>b64decode\<close> is given on the one string the examples decode.
\<close>

definition example_world :: world where
  "example_world =
     \<lparr>MESHY_API_KEY = Some ''secret'',
      MESHY_API_URL = ''https://api.meshy.ai/openapi/v1/image-to-3d'',
      b64decode = (\<lambda>s. if s = ''aGk='' then Inr ''hi'' else Inl (LibraryError ''binascii.Error'')),
      http_post = (\<lambda>url hs payload.
         Inr \<lparr>resp_ok = True, resp_status_code = 200,
              resp_json = Inr (JObj [(''result'', JStr ''task-1'')]),
              resp_text = [], resp_content = []\<rparr>),
      http_get = (\<lambda>url hs.
         Inr \<lparr>resp_ok = True, resp_status_code = 200,
              resp_json = Inr (JObj [(''status'', JStr ''PENDING''), (''progress'', JInt 40)]),
              resp_text = [], resp_content = []\<rparr>),
      makedirs = (\<lambda>task. None),
      convert = (\<lambda>fmt bytes. Inl (LibraryError ''trimesh''))\<rparr>"

definition keyless_world :: world where
  "keyless_world = example_world\<lparr>MESHY_API_KEY := None\<rparr>"

definition json_request :: "json option \<Rightarrow> request" where
  "json_request body =
     \<lparr>content_type = Some ''application/json'', is_json = True, json_body = body,
      form = [], files = [], args = []\<rparr>"

definition result_request :: "string \<Rightarrow> request" where
  "result_request fmt =
     \<lparr>content_type = None, is_json = False, json_body = None,
      form = [], files = [], args = [(''format'', fmt)]\<rparr>"

section \<open>Properties of the viewer\<close>

subsection \<open>Downsampling and inversion\<close>

lemma take_rows_ok:
  "list_all (\<lambda>i. i < length xs) idx \<Longrightarrow> take_rows xs idx = Inr (map (\<lambda>i. xs ! i) idx)"
  by (simp add: take_rows_def)

text \<open>
  For every count \<open>N\<close> up to \<open>M\<close> there is a draw: the first \<open>N\<close> indices, for one.
\<close>

lemma choice_without_replacement_exists:
  assumes "0 \<le> N" and "N \<le> int M"
  shows "choice_without_replacement M N [0 ..< nat N]"
  using assms by (auto simp: choice_without_replacement_def list_all_iff)

text \<open>
  Claim C1. For a cloud of \<open>M\<close> positions (with optional colours of the same length)
  and a target count \<open>N\<close>: when \<open>M > N\<close>, \<open>downsample\<close> returns exactly \<open>N\<close>
  points, picked at \<open>N\<close> indices without duplicates, and the \<open>k\<close>-th returned position
  and the \<open>k\<close>-th returned colour both come from the original index \<open>idx ! k\<close>; when
  \<open>M \<le> N\<close>, the input is returned unchanged. The draw \<open>idx\<close> is any result that
  \<open>np.random.choice(M, N, replace=False)\<close> can return.
\<close>

theorem downsample_spec:
  fixes pts :: "'p list" and cols :: "'c list option"
  assumes count: "0 \<le> N"
    and draw: "int (length pts) > N \<Longrightarrow> choice_without_replacement (length pts) N idx"
    and parallel: "\<forall>cs. cols = Some cs \<longrightarrow> length cs = length pts"
  shows "(int (length pts) > N \<longrightarrow>
           (\<exists>ps cs'. downsample idx pts cols N = Inr (ps, cs') \<and>
              length ps = nat N \<and> length idx = nat N \<and> distinct idx \<and>
              (\<forall>k < nat N. idx ! k < length pts \<and> ps ! k = pts ! (idx ! k)) \<and>
              (cols = None \<longrightarrow> cs' = None) \<and>
              (\<forall>cs. cols = Some cs \<longrightarrow>
                 (\<exists>cs2. cs' = Some cs2 \<and> length cs2 = nat N \<and>
                    (\<forall>k < nat N. cs2 ! k = cs ! (idx ! k)))))) \<and>
         (int (length pts) \<le> N \<longrightarrow> downsample idx pts cols N = Inr (pts, cols))"
proof (intro conjI impI)
  assume big: "int (length pts) > N"
  from draw [OF big] have len: "length idx = nat N" and dist: "distinct idx"
    and range: "list_all (\<lambda>i. i < length pts) idx"
    by (auto simp: choice_without_replacement_def)
  have rows: "take_rows pts idx = Inr (map (\<lambda>i. pts ! i) idx)"
    using range by (rule take_rows_ok)
  have inrange: "\<forall>k < nat N. idx ! k < length pts"
    using range len by (simp add: list_all_length)
  show "\<exists>ps cs'. downsample idx pts cols N = Inr (ps, cs') \<and>
              length ps = nat N \<and> length idx = nat N \<and> distinct idx \<and>
              (\<forall>k < nat N. idx ! k < length pts \<and> ps ! k = pts ! (idx ! k)) \<and>
              (cols = None \<longrightarrow> cs' = None) \<and>
              (\<forall>cs. cols = Some cs \<longrightarrow>
                 (\<exists>cs2. cs' = Some cs2 \<and> length cs2 = nat N \<and>
                    (\<forall>k < nat N. cs2 ! k = cs ! (idx ! k))))"
  proof (cases cols)
    case None
    have "downsample idx pts cols N = Inr (map (\<lambda>i. pts ! i) idx, None)"
      using big count rows None by (simp add: downsample_def)
    then show ?thesis using len dist inrange None by simp
  next
    case (Some cs)
    with parallel have "length cs = length pts" by simp
    with range have "take_rows cs idx = Inr (map (\<lambda>i. cs ! i) idx)"
      by (simp add: take_rows_ok)
    then have "downsample idx pts cols N =
        Inr (map (\<lambda>i. pts ! i) idx, Some (map (\<lambda>i. cs ! i) idx))"
      using big count rows Some by (simp add: downsample_def)
    then show ?thesis using len dist inrange Some by simp
  qed
next
  assume "int (length pts) \<le> N"
  then show "downsample idx pts cols N = Inr (pts, cols)"
    by (simp add: downsample_def)
qed

text \<open>
  The theorem at a cloud of three coloured points with target 2 and the draw \<open>[2, 0]\<close>,
  and at a cloud of two points with target 2.
\<close>

theorem downsample_spec_witness:
  "choice_without_replacement 3 2 [2, 0] \<and>
   downsample [2, 0] [(0, 0, 0), (1, 0, 0), (2, 0, 0) :: vec3]
       (Some [(1, 1, 1), (0, 0, 0), (0, 1, 0) :: vec3]) 2 =
     Inr ([(2, 0, 0), (0, 0, 0)], Some [(0, 1, 0), (1, 1, 1)]) \<and>
   downsample [] [(0, 0, 0), (1, 0, 0) :: vec3] (None :: vec3 list option) 2 =
     Inr ([(0, 0, 0), (1, 0, 0)], None)"
  using downsample_spec [of 2 "[(0, 0, 0), (1, 0, 0), (2, 0, 0) :: vec3]" "[2, 0]"
      "Some [(1, 1, 1), (0, 0, 0), (0, 1, 0) :: vec3]"]
  by (simp add: choice_without_replacement_def downsample_def take_rows_def)

text \<open>
  A negative \<open>max_points\<close> is not a count: the comparison holds for every cloud and
  \<open>np.random.choice\<close> raises.
\<close>

lemma downsample_negative:
  "max_points < 0 \<Longrightarrow> downsample idx pts cols max_points = Inl ValueError"
  by (simp add: downsample_def)

text \<open>
  Claim C9. Negating all positions twice gives the original positions back (exactly, so
  within every tolerance), and the inversion leaves the colours as they are.
\<close>

theorem invert_twice:
  "invert_points True (invert_points True (pts, cols)) = (pts, cols) \<and>
   snd (invert_points b (pts, cols)) = cols"
  by (simp add: invert_points_def negate_def comp_def split_def)

subsection \<open>The focal length in double precision\<close>

text \<open>
  Rounding moves a number by at most half a unit in the last place, that is by at most
  \<open>2^-53\<close> of its size; a number in a known binade is rounded on that binade's grid.
\<close>

lemma round_even_close: "\<bar>of_int (round_even q) - q\<bar> \<le> 1 / 2"
proof -
  have "of_int \<lfloor>q\<rfloor> \<le> q" "q < of_int \<lfloor>q\<rfloor> + 1" by linarith+
  then show ?thesis by (auto simp: round_even_def)
qed

lemma round_even_of_int: "round_even (of_int n) = n"
  by (simp add: round_even_def)

lemma binade_unique:
  assumes "2 powr of_int k \<le> \<bar>x\<bar>" and "\<bar>x\<bar> < 2 powr (of_int k + 1)"
  shows "binade x = k"
proof -
  have pos: "0 < \<bar>x\<bar>" using assms(1) powr_gt_zero [of 2 "of_int k"] by linarith
  have "of_int k \<le> log 2 \<bar>x\<bar>" using assms(1) pos by (simp add: le_log_iff)
  moreover have "log 2 \<bar>x\<bar> < of_int k + 1" using assms(2) pos by (simp add: log_less_iff)
  ultimately show ?thesis unfolding binade_def by linarith
qed

lemma binade_bounds:
  assumes "x \<noteq> 0"
  shows "2 powr of_int (binade x) \<le> \<bar>x\<bar>" and "\<bar>x\<bar> < 2 powr (of_int (binade x) + 1)"
proof -
  have pos: "0 < \<bar>x\<bar>" using assms by simp
  have "of_int (binade x) \<le> log 2 \<bar>x\<bar>" unfolding binade_def by linarith
  then show "2 powr of_int (binade x) \<le> \<bar>x\<bar>" using pos by (simp add: le_log_iff)
  have "log 2 \<bar>x\<bar> < of_int (binade x) + 1" unfolding binade_def by linarith
  then show "\<bar>x\<bar> < 2 powr (of_int (binade x) + 1)" using pos by (simp add: log_less_iff)
qed

lemma ulp_pos: "0 < ulp x"
  by (simp add: ulp_def)

lemma ulp_le: 
  assumes "x \<noteq> 0"
  shows "ulp x \<le> \<bar>x\<bar> / 2 ^ 52"
proof -
  have "ulp x = 2 powr of_int (binade x) / 2 powr 52"
    by (simp add: ulp_def powr_diff)
  also have "\<dots> = 2 powr of_int (binade x) / 2 ^ 52" by simp
  also have "\<dots> \<le> \<bar>x\<bar> / 2 ^ 52"
    using binade_bounds(1) [OF assms] by (simp add: divide_right_mono)
  finally show ?thesis .
qed

lemma rnd_error:
  "\<bar>rnd x - x\<bar> \<le> \<bar>x\<bar> / 2 ^ 53"
proof (cases "x = 0")
  case True
  then show ?thesis by (simp add: rnd_def)
next
  case False
  have u: "0 < ulp x" by (rule ulp_pos)
  have "rnd x - x = (of_int (round_even (x / ulp x)) - x / ulp x) * ulp x"
    using False u by (simp add: rnd_def field_simps)
  then have "\<bar>rnd x - x\<bar> = \<bar>of_int (round_even (x / ulp x)) - x / ulp x\<bar> * ulp x"
    using u by (simp add: abs_mult)
  also have "\<dots> \<le> 1 / 2 * ulp x"
    using round_even_close [of "x / ulp x"] u by (intro mult_right_mono) simp_all
  also have "\<dots> \<le> 1 / 2 * (\<bar>x\<bar> / 2 ^ 52)"
    using ulp_le [OF False] by simp
  also have "\<dots> = \<bar>x\<bar> / 2 ^ 53" by simp
  finally show ?thesis .
qed

lemma rnd_in_binade:
  assumes "2 powr of_int k \<le> \<bar>x\<bar>" and "\<bar>x\<bar> < 2 powr (of_int k + 1)"
  shows "rnd x = of_int (round_even (x / 2 powr (of_int k - 52))) * 2 powr (of_int k - 52)"
proof -
  have "x \<noteq> 0" using assms(1) powr_gt_zero [of 2 "of_int k"] by auto
  then show ?thesis by (simp add: rnd_def ulp_def binade_unique [OF assms])
qed

lemma rnd_integral:
  assumes k: "2 powr of_int k \<le> \<bar>x\<bar>" "\<bar>x\<bar> < 2 powr (of_int k + 1)"
    and int: "x / 2 powr (of_int k - 52) = of_int n"
  shows "rnd x = x"
proof -
  have "rnd x = of_int n * 2 powr (of_int k - 52)"
    unfolding rnd_in_binade [OF k] int round_even_of_int ..
  also have "\<dots> = x" using int [symmetric] by simp
  finally show ?thesis .
qed

text \<open>
  An integer below \<open>2^53\<close>, scaled by a power of two, is a double: rounding leaves it.
\<close>

lemma binade_scaled:
  assumes "x \<noteq> 0"
  shows "binade (x * 2 powr of_int j) = binade x + j"
proof (rule binade_unique)
  have p: "0 < (2::real) powr of_int j" by simp
  have "(2::real) powr of_int (binade x + j) = 2 powr of_int (binade x) * 2 powr of_int j"
    by (simp add: powr_add)
  also have "\<dots> \<le> \<bar>x\<bar> * 2 powr of_int j"
    using binade_bounds(1) [OF assms] by (intro mult_right_mono) simp_all
  finally show "2 powr of_int (binade x + j) \<le> \<bar>x * 2 powr of_int j\<bar>"
    by (simp add: abs_mult)
  have "\<bar>x\<bar> * 2 powr of_int j < 2 powr (of_int (binade x) + 1) * 2 powr of_int j"
    using binade_bounds(2) [OF assms] p by (intro mult_strict_right_mono)
  also have "\<dots> = 2 powr (of_int (binade x + j) + 1)"
    by (simp add: powr_add [symmetric] algebra_simps)
  finally show "\<bar>x * 2 powr of_int j\<bar> < 2 powr (of_int (binade x + j) + 1)"
    by (simp add: abs_mult)
qed

lemma binade_of_int_le:
  assumes "m \<noteq> 0" and "\<bar>m\<bar> < 2 ^ 53"
  shows "binade (of_int m) \<le> 52"
proof -
  have nz: "(of_int m :: real) \<noteq> 0" using assms(1) by simp
  have "2 powr of_int (binade (of_int m)) \<le> \<bar>of_int m :: real\<bar>"
    by (rule binade_bounds(1) [OF nz])
  also have "\<dots> < 2 ^ 53"
  proof -
    have "(of_int \<bar>m\<bar> :: real) < of_int (2 ^ 53)" using assms(2) by (simp only: of_int_less_iff)
    then show ?thesis by simp
  qed
  also have "\<dots> = 2 powr of_int 53" by simp
  finally have "of_int (binade (of_int m)) < (of_int 53 :: real)"
    by (simp only: powr_less_cancel_iff one_less_numeral_iff semiring_norm)
  then show ?thesis by simp
qed

lemma rnd_dyadic:
  assumes "\<bar>m\<bar> < 2 ^ 53"
  shows "rnd (of_int m * 2 powr of_int j) = of_int m * 2 powr of_int j"
proof (cases "m = 0")
  case True
  then show ?thesis by (simp add: rnd_def)
next
  case False
  let ?x = "of_int m * 2 powr of_int j :: real"
  let ?e = "binade (of_int m)"
  have nz: "(of_int m :: real) \<noteq> 0" using False by simp
  have xnz: "?x \<noteq> 0" using nz by simp
  have b: "binade ?x = ?e + j" using nz by (rule binade_scaled)
  have le: "?e \<le> 52" using False assms by (rule binade_of_int_le)
  have p1: "(2::real) powr (52 - of_int ?e) = 2 powr of_int (52 - ?e)" by simp
  have p2: "(2::real) powr of_int (52 - ?e) = 2 ^ nat (52 - ?e)"
    using le by (simp only: powr_real_of_int) simp
  have "?x / 2 powr (of_int (?e + j) - 52) = of_int m * 2 powr (52 - of_int ?e)"
    by (simp add: powr_diff powr_add field_simps)
  also have "\<dots> = of_int m * 2 ^ nat (52 - ?e)" unfolding p1 p2 ..
  also have "\<dots> = of_int (m * 2 ^ nat (52 - ?e))" by simp
  finally have int: "?x / 2 powr (of_int (?e + j) - 52) = of_int (m * 2 ^ nat (52 - ?e))" .
  show ?thesis
    using binade_bounds [OF xnz] int unfolding b by (rule rnd_integral)
qed

lemma rnd_of_int: "\<bar>m\<bar> < 2 ^ 53 \<Longrightarrow> rnd (of_int m) = of_int m"
  using rnd_dyadic [of m 0] by simp

lemma rnd_half: "\<bar>m\<bar> < 2 ^ 53 \<Longrightarrow> rnd (of_int m / 2) = of_int m / 2"
  using rnd_dyadic [of m "- 1"] by (simp add: powr_minus field_simps)

lemma rnd_pos_bounds:
  assumes "0 < y"
  shows "y * (1 - 1 / 2 ^ 53) \<le> rnd y" and "rnd y \<le> y * (1 + 1 / 2 ^ 53)"
proof -
  have "\<bar>rnd y - y\<bar> \<le> y / 2 ^ 53" using rnd_error [of y] assms by simp
  then have "y - y / 2 ^ 53 \<le> rnd y" "rnd y \<le> y + y / 2 ^ 53" by linarith+
  then show "y * (1 - 1 / 2 ^ 53) \<le> rnd y" and "rnd y \<le> y * (1 + 1 / 2 ^ 53)"
    by (simp_all add: algebra_simps)
qed

lemma round_even_up:
  assumes "of_int z + 1 / 2 < q" and "q < of_int z + 1"
  shows "round_even q = z + 1"
proof -
  have "\<lfloor>q\<rfloor> = z" using assms by linarith
  then show ?thesis using assms by (simp add: round_even_def)
qed

lemma round_even_down:
  assumes "of_int z \<le> q" and "q < of_int z + 1 / 2"
  shows "round_even q = z"
proof -
  have "\<lfloor>q\<rfloor> = z" using assms by linarith
  then show ?thesis using assms by (simp add: round_even_def)
qed

text \<open>
  The focal length for \<open>fov = 90\<close> and \<open>width = 1000\<close> with numpy's tangent: the quotient
  \<open>1000 / (2 - 2^-52)\<close> lies between 500 and the next double and is rounded up to it.
\<close>

lemma focal_length_at_45:
  "focal_length numpy_at_45 1000 90 = Some (500 + 1 / 2 ^ 44)"
proof -
  have half: "rnd (rnd (of_int 90) / 2) = 45"
    using rnd_of_int [of 90] rnd_half [of 90] by simp
  have w: "rnd (of_int 1000) = 1000" using rnd_of_int [of 1000] by simp
  have t: "np_tan numpy_at_45 (np_radians numpy_at_45 45) = 1 - 1 / 2 ^ 53"
    by (simp add: numpy_at_45_def)
  have d: "rnd (2 * (1 - 1 / 2 ^ 53)) = 2 * (1 - 1 / 2 ^ 53)"
    using rnd_dyadic [of "2 ^ 53 - 1" "- 52"] by (simp add: powr_minus field_simps)
  have q: "rnd (1000 / (2 * (1 - 1 / 2 ^ 53))) = 500 + 1 / 2 ^ 44"
  proof -
    let ?x = "1000 / (2 * (1 - 1 / 2 ^ 53)) :: real"
    have k: "2 powr of_int 8 \<le> \<bar>?x\<bar>" "\<bar>?x\<bar> < 2 powr (of_int 8 + 1)" by simp_all
    have p: "(2::real) powr (of_int 8 - 52) = 1 / 2 ^ 44"
      by (simp add: powr_minus divide_simps)
    have r: "round_even (?x / (1 / 2 ^ 44)) = 500 * 2 ^ 44 + 1"
      by (rule round_even_up) simp_all
    show ?thesis unfolding rnd_in_binade [OF k] p r by simp
  qed
  show ?thesis
    unfolding focal_length_def Let_def half w t d q by simp
qed

lemma tan_half_angle_pos:
  assumes "0 < fov" and "fov < 180"
  shows "0 < tan (real_of_int fov * pi / 360)"
proof -
  have pos: "0 < real_of_int fov * pi / 360" using assms by simp
  have "real_of_int fov < 180" using assms by simp
  then have "real_of_int fov * pi / 360 < pi / 2" by simp
  with pos show ?thesis by (rule tan_gt_zero)
qed

text \<open>
  The computed focal length against \<open>w / (2 * T)\<close>, when the library's tangent \<open>t\<close> is
  within the relative error \<open>\<delta>\<close> of \<open>T\<close>: two roundings and the error of \<open>t\<close>.
\<close>

lemma focal_length_bounds:
  fixes T t u \<delta> :: real
  assumes fov: "\<bar>fov\<bar> < 2 ^ 53" and w: "0 < w" "w < 2 ^ 53"
    and T: "0 < T" and \<delta>: "0 \<le> \<delta>" "\<delta> < 1"
    and t: "t = np_tan np (np_radians np (real_of_int fov / 2))"
    and lib: "\<bar>t - T\<bar> \<le> \<delta> * T"
  shows "\<exists>f. focal_length np w fov = Some f \<and>
           real_of_int w * (1 - 1 / 2 ^ 53) / (2 * T * (1 + \<delta>) * (1 + 1 / 2 ^ 53)) \<le> f \<and>
           f \<le> real_of_int w * (1 + 1 / 2 ^ 53) / (2 * T * (1 - \<delta>) * (1 - 1 / 2 ^ 53))"
proof -
  define u :: real where "u = 1 / 2 ^ 53"
  have u: "0 < u" "u < 1" by (simp_all add: u_def)
  define d where "d = rnd (2 * t)"
  define q where "q = real_of_int w / d"
  have half: "rnd (rnd (real_of_int fov) / 2) = real_of_int fov / 2"
    using rnd_of_int [OF fov] rnd_half [OF fov] by simp
  have wr: "rnd (real_of_int w) = real_of_int w"
    using w by (intro rnd_of_int) simp
  have wpos: "0 < real_of_int w" using w by simp
  have tlo: "T * (1 - \<delta>) \<le> t" and thi: "t \<le> T * (1 + \<delta>)"
    using lib by (simp_all add: abs_le_iff algebra_simps)
  have tpos: "0 < t" using tlo T \<delta> by (smt (verit) mult_pos_pos)
  have dlo: "2 * t * (1 - u) \<le> d" and dhi: "d \<le> 2 * t * (1 + u)"
    using rnd_pos_bounds [of "2 * t"] tpos by (simp_all add: d_def u_def)
  have Dlo: "2 * T * (1 - \<delta>) * (1 - u) \<le> d"
  proof -
    have "2 * T * (1 - \<delta>) * (1 - u) = 2 * (T * (1 - \<delta>)) * (1 - u)" by simp
    also have "\<dots> \<le> 2 * t * (1 - u)"
      using tlo u by (intro mult_right_mono mult_left_mono) simp_all
    finally show ?thesis using dlo by linarith
  qed
  have Dhi: "d \<le> 2 * T * (1 + \<delta>) * (1 + u)"
  proof -
    have "2 * t * (1 + u) \<le> 2 * (T * (1 + \<delta>)) * (1 + u)"
      using thi u by (intro mult_right_mono mult_left_mono) simp_all
    then show ?thesis using dhi by (simp add: mult.assoc)
  qed
  have Dlo_pos: "0 < 2 * T * (1 - \<delta>) * (1 - u)" using T \<delta> u by simp
  have dpos: "0 < d" using Dlo Dlo_pos by linarith
  have qpos: "0 < q" using wpos dpos by (simp add: q_def)
  have f: "focal_length np w fov = Some (rnd q)"
    using dpos by (simp add: focal_length_def Let_def half wr t d_def q_def)
  have flo: "q * (1 - u) \<le> rnd q" and fhi: "rnd q \<le> q * (1 + u)"
    using rnd_pos_bounds [OF qpos] by (simp_all add: u_def)
  have lower: "real_of_int w * (1 - u) / (2 * T * (1 + \<delta>) * (1 + u)) \<le> rnd q"
  proof -
    have "real_of_int w * (1 - u) / (2 * T * (1 + \<delta>) * (1 + u)) \<le> real_of_int w * (1 - u) / d"
      using wpos u dpos Dhi by (intro frac_le) simp_all
    also have "\<dots> = q * (1 - u)" by (simp add: q_def)
    finally show ?thesis using flo by linarith
  qed
  have upper: "rnd q \<le> real_of_int w * (1 + u) / (2 * T * (1 - \<delta>) * (1 - u))"
  proof -
    have "q * (1 + u) = real_of_int w * (1 + u) / d" by (simp add: q_def)
    also have "\<dots> \<le> real_of_int w * (1 + u) / (2 * T * (1 - \<delta>) * (1 - u))"
      using wpos u Dlo_pos Dlo by (intro frac_le) simp_all
    finally show ?thesis using fhi by linarith
  qed
  from f lower upper show ?thesis unfolding u_def by blast
qed

text \<open>
  Claim C8, as amended. For a field of view \<open>fov\<close> in degrees with \<open>0 < fov < 180\<close> and a
  window width \<open>0 < w < 2^53\<close>, the focal length is \<open>w / (2 * tan (fov / 2))\<close> as double
  arithmetic computes it: when numpy's tangent of the half angle has a relative error of
  at most \<open>\<delta>\<close> (\<open>\<delta> \<le> 1/2\<close>), both focal lengths are the same number \<open>f\<close> with
  \<open>F * (1 - u) / ((1 + \<delta>) * (1 + u)) \<le> f \<le> F * (1 + u) / ((1 - \<delta>) * (1 - u))\<close>, where \<open>F\<close>
  is the exact \<open>w / (2 * tan (fov / 2))\<close> and \<open>u = 2^-53\<close>. Both principal-point
  coordinates are exactly half the window dimensions. For \<open>fov = 90\<close> and \<open>w = 1000\<close>,
  where the exact value is 500, the focal length is within \<open>2^-41\<close> (about \<open>4.5e-13\<close>) of
  500 whenever the library's tangent of 45 degrees is within \<open>2^-52\<close> of 1.
\<close>

theorem camera_intrinsic_rounded:
  assumes fov: "0 < fov" "fov < 180" and w: "0 < w" "w < 2 ^ 53" and h: "\<bar>h\<bar> < 2 ^ 53"
    and \<delta>: "0 \<le> \<delta>" "\<delta> \<le> 1 / 2"
    and lib: "\<bar>np_tan np (np_radians np (real_of_int fov / 2)) - tan (real_of_int fov * pi / 360)\<bar>
              \<le> \<delta> * tan (real_of_int fov * pi / 360)"
  shows "(\<exists>f. fx (camera_intrinsic np w h fov) = Some f \<and>
              fy (camera_intrinsic np w h fov) = Some f \<and>
              real_of_int w / (2 * tan (real_of_int fov * pi / 360)) *
                ((1 - 1 / 2 ^ 53) / ((1 + \<delta>) * (1 + 1 / 2 ^ 53))) \<le> f \<and>
              f \<le> real_of_int w / (2 * tan (real_of_int fov * pi / 360)) *
                ((1 + 1 / 2 ^ 53) / ((1 - \<delta>) * (1 - 1 / 2 ^ 53)))) \<and>
         cx (camera_intrinsic np w h fov) = real_of_int w / 2 \<and>
         cy (camera_intrinsic np w h fov) = real_of_int h / 2 \<and>
         (\<forall>np'. \<bar>np_tan np' (np_radians np' 45) - 1\<bar> \<le> 1 / 2 ^ 52 \<longrightarrow>
            (\<exists>f. fx (camera_intrinsic np' 1000 h 90) = Some f \<and> \<bar>f - 500\<bar> \<le> 1 / 2 ^ 41))"
proof -
  let ?T = "tan (real_of_int fov * pi / 360)"
  have T: "0 < ?T" using fov by (rule tan_half_angle_pos)
  have fb: "\<bar>fov\<bar> < 2 ^ 53" using fov by simp
  have \<delta>1: "\<delta> < 1" using \<delta> by simp
  from focal_length_bounds [OF fb w T \<delta>(1) \<delta>1 refl lib]
  obtain f where f: "focal_length np w fov = Some f"
    and lo: "real_of_int w * (1 - 1 / 2 ^ 53) / (2 * ?T * (1 + \<delta>) * (1 + 1 / 2 ^ 53)) \<le> f"
    and hi: "f \<le> real_of_int w * (1 + 1 / 2 ^ 53) / (2 * ?T * (1 - \<delta>) * (1 - 1 / 2 ^ 53))"
    by blast
  have a: "\<exists>f. fx (camera_intrinsic np w h fov) = Some f \<and>
              fy (camera_intrinsic np w h fov) = Some f \<and>
              real_of_int w / (2 * ?T) * ((1 - 1 / 2 ^ 53) / ((1 + \<delta>) * (1 + 1 / 2 ^ 53))) \<le> f \<and>
              f \<le> real_of_int w / (2 * ?T) * ((1 + 1 / 2 ^ 53) / ((1 - \<delta>) * (1 - 1 / 2 ^ 53)))"
    using f lo hi by (simp add: camera_intrinsic_def set_intrinsics_def mult.assoc)
  have wb: "\<bar>w\<bar> < 2 ^ 53" using w by simp
  have c: "cx (camera_intrinsic np w h fov) = real_of_int w / 2"
    "cy (camera_intrinsic np w h fov) = real_of_int h / 2"
    using rnd_of_int [OF wb] rnd_half [OF wb] rnd_of_int [OF h] rnd_half [OF h]
    by (simp_all add: camera_intrinsic_def set_intrinsics_def)
  have inst: "\<exists>f. fx (camera_intrinsic np' 1000 h 90) = Some f \<and> \<bar>f - 500\<bar> \<le> 1 / 2 ^ 41"
    if near: "\<bar>np_tan np' (np_radians np' 45) - 1\<bar> \<le> 1 / 2 ^ 52" for np'
  proof -
    have t: "np_tan np' (np_radians np' 45) = np_tan np' (np_radians np' (real_of_int 90 / 2))"
      by simp
    have l: "\<bar>np_tan np' (np_radians np' 45) - 1\<bar> \<le> 1 / 2 ^ 52 * (1::real)"
      using near by simp
    from focal_length_bounds [of 90 1000 1 "1 / 2 ^ 52" _ np', OF _ _ _ _ _ _ t l]
    obtain g where g: "focal_length np' 1000 90 = Some g"
      and glo: "real_of_int 1000 * (1 - 1 / 2 ^ 53) / (2 * 1 * (1 + 1 / 2 ^ 52) * (1 + 1 / 2 ^ 53)) \<le> g"
      and ghi: "g \<le> real_of_int 1000 * (1 + 1 / 2 ^ 53) / (2 * 1 * (1 - 1 / 2 ^ 52) * (1 - 1 / 2 ^ 53))"
      by auto
    have "500 - 1 / 2 ^ 41 \<le> real_of_int 1000 * (1 - 1 / 2 ^ 53) / (2 * 1 * (1 + 1 / 2 ^ 52) * (1 + 1 / 2 ^ 53))"
      by simp
    moreover have "real_of_int 1000 * (1 + 1 / 2 ^ 53) / (2 * 1 * (1 - 1 / 2 ^ 52) * (1 - 1 / 2 ^ 53)) \<le> 500 + 1 / 2 ^ 41"
      by simp
    ultimately have "\<bar>g - 500\<bar> \<le> 1 / 2 ^ 41" using glo ghi by linarith
    with g show ?thesis by (auto simp: camera_intrinsic_def set_intrinsics_def)
  qed
  from a c inst show ?thesis by blast
qed

text \<open>
  The theorem with numpy's tangent at \<open>fov = 90\<close>, a window of 1000 by 800.
\<close>

theorem camera_intrinsic_rounded_witness:
  "fx (camera_intrinsic numpy_at_45 1000 800 90) = Some (500 + 1 / 2 ^ 44) \<and>
   fy (camera_intrinsic numpy_at_45 1000 800 90) = Some (500 + 1 / 2 ^ 44) \<and>
   \<bar>(500 + 1 / 2 ^ 44) - 500\<bar> \<le> (1 / 2 ^ 41 :: real) \<and>
   cx (camera_intrinsic numpy_at_45 1000 800 90) = 500 \<and>
   cy (camera_intrinsic numpy_at_45 1000 800 90) = 400"
proof -
  have t: "np_tan numpy_at_45 (np_radians numpy_at_45 (real_of_int 90 / 2)) = 1 - 1 / 2 ^ 53"
    by (simp add: numpy_at_45_def)
  have T: "tan (real_of_int 90 * pi / 360) = 1"
  proof -
    have "real_of_int 90 * pi / 360 = pi / 4" by simp
    then show ?thesis by (simp only: tan_45)
  qed
  have lib: "\<bar>np_tan numpy_at_45 (np_radians numpy_at_45 (real_of_int 90 / 2)) -
               tan (real_of_int 90 * pi / 360)\<bar>
             \<le> 1 / 2 ^ 53 * tan (real_of_int 90 * pi / 360)"
    unfolding t T by simp
  have f: "fx (camera_intrinsic numpy_at_45 1000 800 90) = Some (500 + 1 / 2 ^ 44)"
    "fy (camera_intrinsic numpy_at_45 1000 800 90) = Some (500 + 1 / 2 ^ 44)"
    by (simp_all add: camera_intrinsic_def set_intrinsics_def focal_length_at_45)
  from camera_intrinsic_rounded [of 90 1000 800 "1 / 2 ^ 53" numpy_at_45, OF _ _ _ _ _ _ _ lib]
  have "cx (camera_intrinsic numpy_at_45 1000 800 90) = real_of_int 1000 / 2"
    "cy (camera_intrinsic numpy_at_45 1000 800 90) = real_of_int 800 / 2"
    by simp_all
  with f show ?thesis by simp
qed

text \<open>
  Claim C8 as stated fails: for \<open>fov = 90\<close> and \<open>width = 1000\<close> the focal length computed
  with numpy's tangent is \<open>500 + 2^-44\<close>, the double \<open>500.00000000000006\<close>, and not 500.
\<close>

theorem camera_intrinsic_not_500:
  "fx (camera_intrinsic numpy_at_45 1000 800 90) = Some (500 + 1 / 2 ^ 44) \<and>
   fx (camera_intrinsic numpy_at_45 1000 800 90) \<noteq> Some 500"
  by (simp add: camera_intrinsic_def set_intrinsics_def focal_length_at_45)

subsection \<open>The rotation lock on a level frame\<close>

lemma eps_bounds: "0 < eps" "eps \<le> 1"
  by (simp_all add: eps_def)

lemma sqrt_scaled:
  fixes x z k :: real
  assumes unit: "x * x + z * z = 1" and k: "0 < k"
  shows "sqrt (x / k * (x / k) + 0 * 0 + z / k * (z / k)) = 1 / k"
proof -
  have "x / k * (x / k) + 0 * 0 + z / k * (z / k) = (x * x + z * z) / (k * k)"
    by (simp add: add_divide_distrib)
  also have "\<dots> = (1 / k)\<^sup>2" using unit by (simp add: power2_eq_square)
  finally show ?thesis using k by simp
qed





text \<open>
  The result of the rotation lock on a level rotation frame, computed column by column.
\<close>

lemma lock_level_components:
  fixes s gx gz :: real
  assumes s: "s = 1 \<or> s = - 1" and unit: "gx * gx + gz * gz = 1"
    and e: "right_col e = (s * gz, 0, - (s * gx))" "up_col e = (0, s, 0)"
       "forward_col e = (gx, 0, gz)" "translation e = (tx, y0, tz)"
  shows "lock_vertical_rotation y0 e =
     e\<lparr>right_col := (s * gz / (1 + eps + eps * eps), 0, - (s * gx) / (1 + eps + eps * eps)),
       forward_col := (gx / (1 + eps), 0, gz / (1 + eps))\<rparr>"
proof -
  have kpos: "0 < 1 + eps" using eps_bounds by simp
  have up0: "(if s < 0 then - 1 else 1) = s" using s by auto
  have nup: "norm3 (0, s, 0) = 1" using s by (auto simp: norm3_def)
  have nf: "norm3 (gx, 0, gz) = 1" using unit by (simp add: norm3_def)
  have up: "scale_div (0, s, 0) 1 = (0, s, 0)" by (simp add: scale_div_def)
  have fwd: "scale_div (gx, 0, gz) (1 + eps) = (gx / (1 + eps), 0, gz / (1 + eps))"
    by (simp add: scale_div_def)
  have cr: "cross (0, s, 0) (gx / (1 + eps), 0, gz / (1 + eps)) =
      (s * gz / (1 + eps), 0, - (s * gx) / (1 + eps))"
    by (simp add: cross_def)
  have unit': "(s * gz) * (s * gz) + (- (s * gx)) * (- (s * gx)) = 1"
    using s unit by auto
  have nr: "norm3 (s * gz / (1 + eps), 0, - (s * gx) / (1 + eps)) = 1 / (1 + eps)"
    using sqrt_scaled [OF unit' kpos] by (simp add: norm3_def)
  have dd: "(1 + eps) * (1 / (1 + eps) + eps) = 1 + eps + eps * eps"
    using kpos by (simp add: field_simps)
  have quot: "\<And>a. a / (1 + eps) / (1 / (1 + eps) + eps) = a / (1 + eps + eps * eps)"
    using dd by (simp add: divide_divide_eq_left)
  have rt: "scale_div (s * gz / (1 + eps), 0, - (s * gx) / (1 + eps)) (1 / (1 + eps) + eps) =
      (s * gz / (1 + eps + eps * eps), 0, - (s * gx) / (1 + eps + eps * eps))"
    unfolding scale_div_def prod.case quot by simp
  have "lock_vertical_rotation y0 e =
     e\<lparr>right_col := (s * gz / (1 + eps + eps * eps), 0, - (s * gx) / (1 + eps + eps * eps)),
       up_col := (0, s, 0), forward_col := (gx / (1 + eps), 0, gz / (1 + eps)),
       translation := (tx, y0, tz)\<rparr>"
    unfolding lock_vertical_rotation_def Let_def e prod.case up0 nup up nf fwd cr nr rt
    by simp
  then show ?thesis using e by (cases e) simp
qed



text \<open>
  The tolerance is needed: at the identity pose the result is not equal to the input.
\<close>

lemma lock_not_exact:
  "lock_vertical_rotation 0 \<lparr>right_col = (1, 0, 0), up_col = (0, 1, 0), forward_col = (0, 0, 1),
       translation = (0, 0, 0), bottom_row = (0, 0, 0, 1)\<rparr> \<noteq>
     \<lparr>right_col = (1, 0, 0), up_col = (0, 1, 0), forward_col = (0, 0, 1),
       translation = (0, 0, 0), bottom_row = (0, 0, 0, 1)\<rparr>"
proof -
  let ?e = "\<lparr>right_col = (1, 0, 0), up_col = (0, 1, 0), forward_col = (0, 0, 1),
       translation = (0, 0, 0), bottom_row = (0, 0, 0, 1)\<rparr> :: extrinsic"
  have "lock_vertical_rotation 0 ?e =
     ?e\<lparr>right_col := (1 * 1 / (1 + eps + eps * eps), 0, - (1 * 0) / (1 + eps + eps * eps)),
       forward_col := (0 / (1 + eps), 0, 1 / (1 + eps))\<rparr>"
    by (rule lock_level_components) simp_all
  then show ?thesis using eps_bounds by simp
qed

section \<open>Properties of the proxy\<close>

subsection \<open>The result handler\<close>

text \<open>
  An unset and an empty key are both absent.
\<close>

lemma meshy_headers_absent:
  "MESHY_API_KEY w = None \<or> MESHY_API_KEY w = Some [] \<Longrightarrow>
   meshy_headers w = Inl (RuntimeError key_missing_message)"
  by (auto simp: meshy_headers_def)

text \<open>
  Claim C4, as amended. For every request to \<open>GET /api/result/<task_id>\<close> whose format,
  as the handler reads it (the \<open>format\<close> parameter, \<open>glb\<close> when it is absent or empty,
  lower-cased), is not one of \<open>glb\<close>, \<open>obj\<close>, \<open>ply\<close>, the handler returns 400 with the
  body \<open>{error: "Unsupported format", allowed: ["glb", "obj", "ply"]}\<close> and does nothing
  to the outside: no status request, no model fetch.
\<close>

theorem get_result_unsupported_format:
  assumes "requested_format r \<notin> {''glb'', ''obj'', ''ply''}"
  shows "get_result w r task_id =
           (Json (JObj [(''error'', JStr ''Unsupported format''),
                        (''allowed'', JArr [JStr ''glb'', JStr ''obj'', JStr ''ply''])]) 400, [])"
  using assms by (simp add: get_result_def unsupported_format_response_def)

text \<open>
  The theorem at \<open>format=xyz\<close>.
\<close>

theorem get_result_unsupported_format_witness:
  "requested_format (result_request ''xyz'') = ''xyz'' \<and>
   get_result example_world (result_request ''xyz'') ''task-1'' =
     (Json (JObj [(''error'', JStr ''Unsupported format''),
                  (''allowed'', JArr [JStr ''glb'', JStr ''obj'', JStr ''ply''])]) 400, [])"
proof -
  have f: "requested_format (result_request ''xyz'') = ''xyz''"
    by (simp add: requested_format_def result_request_def lower_def lower_char_def)
  then have "requested_format (result_request ''xyz'') \<notin> {''glb'', ''obj'', ''ply''}"
    by simp
  from get_result_unsupported_format [OF this] f show ?thesis by simp
qed

text \<open>
  The headers of the example world.
\<close>

lemma example_headers: "meshy_headers example_world = Inr [(''Authorization'', ''Bearer secret'')]"
  by (simp add: meshy_headers_def example_world_def)

text \<open>
  Claim C4 as stated fails: \<open>format=GLB\<close> is not one of the strings \<open>glb\<close>, \<open>obj\<close>,
  \<open>ply\<close>, yet the handler lower-cases it, accepts it and asks Meshy for the status (here
  the job is pending, so the answer is 409 and not 400).
\<close>

theorem get_result_uppercase_format_accepted:
  "''GLB'' \<notin> {''glb'', ''obj'', ''ply''} \<and>
   get_result example_world (result_request ''GLB'') ''task-1'' =
     (Json (JObj [(''error'', JStr ''Job not completed''), (''status'', JStr ''PENDING'')]) 409,
      [HttpGet ''https://api.meshy.ai/openapi/v1/image-to-3d/task-1''
         [(''Authorization'', ''Bearer secret'')]])"
proof -
  have f: "requested_format (result_request ''GLB'') = ''glb''"
    by (simp add: requested_format_def result_request_def lower_def lower_char_def)
  show ?thesis
    unfolding get_result_def f example_headers
    by (simp add: example_world_def task_url_def with_events_def dict_get_def or_empty_def)
qed

text \<open>
  Claim C5. For a request to \<open>GET /api/result/<task_id>\<close> with a supported format, when
  the status request is answered (credential present, HTTP success, a JSON body) with a
  status other than \<open>SUCCEEDED\<close>, the handler returns 409 with an error message and the
  reported status; the status request is the only thing it did: no model bytes are fetched.
\<close>

theorem get_result_job_not_ready:
  assumes fmt: "requested_format r \<in> {''glb'', ''obj'', ''ply''}"
    and key: "meshy_headers w = Inr hs"
    and reply: "http_get w (task_url w task_id) hs = Inr sresp"
    and ok: "resp_ok sresp"
    and body: "resp_json sresp = Inr body"
    and st: "dict_get (or_empty body) ''status'' JNull = Inr st"
    and pending: "st \<noteq> JStr ''SUCCEEDED''"
  shows "get_result w r task_id =
           (Json (JObj [(''error'', JStr ''Job not completed''), (''status'', st)]) 409,
            [HttpGet (task_url w task_id) hs])"
  using assms by (simp add: get_result_def with_events_def)

text \<open>
  The theorem at \<open>format=ply\<close> with an upstream status \<open>PENDING\<close>.
\<close>

theorem get_result_job_not_ready_witness:
  "requested_format (result_request ''ply'') = ''ply'' \<and>
   get_result example_world (result_request ''ply'') ''task-1'' =
     (Json (JObj [(''error'', JStr ''Job not completed''), (''status'', JStr ''PENDING'')]) 409,
      [HttpGet ''https://api.meshy.ai/openapi/v1/image-to-3d/task-1''
         [(''Authorization'', ''Bearer secret'')]])"
proof -
  let ?resp = "\<lparr>resp_ok = True, resp_status_code = 200,
              resp_json = Inr (JObj [(''status'', JStr ''PENDING''), (''progress'', JInt 40)]),
              resp_text = [], resp_content = []\<rparr>"
  have f: "requested_format (result_request ''ply'') = ''ply''"
    by (simp add: requested_format_def result_request_def lower_def lower_char_def)
  have fmt: "requested_format (result_request ''ply'') \<in> {''glb'', ''obj'', ''ply''}"
    unfolding f by simp
  have reply: "http_get example_world (task_url example_world ''task-1'')
      [(''Authorization'', ''Bearer secret'')] = Inr ?resp"
    by (simp add: example_world_def)
  have st: "dict_get (or_empty (JObj [(''status'', JStr ''PENDING''), (''progress'', JInt 40)]))
      ''status'' JNull = Inr (JStr ''PENDING'')"
    by (simp add: dict_get_def or_empty_def)
  have url: "task_url example_world ''task-1'' = ''https://api.meshy.ai/openapi/v1/image-to-3d/task-1''"
    by (simp add: task_url_def example_world_def)
  from get_result_job_not_ready [OF fmt example_headers reply _ _ st] f url
  show ?thesis by simp
qed

subsection \<open>The credential check\<close>

text \<open>
  Without a credential \<open>_meshy_headers\<close> raises before \<open>requests.post\<close> is called.
\<close>

lemma create_job_without_key:
  "meshy_headers w = Inl e \<Longrightarrow> create_job w opts url name = (handle_exc e, [])"
  by (simp add: create_job_def)

lemma process_image_without_key_trace:
  assumes "meshy_headers w = Inl e"
  shows "list_all (\<lambda>ev. \<not> is_network ev) (snd (process_image w r))"
  using assms
  by (auto simp: process_image_def create_job_without_key with_events_def
           split: sum.splits flow.splits option.splits)

lemma process_image_without_key_response:
  assumes "meshy_headers w = Inl e"
    and "parse_options r = Inr opts"
    and "parse_image w r = Next img"
    and "image_bytes img \<noteq> None \<or> image_data_url img \<noteq> None"
  shows "fst (process_image w r) = handle_exc e"
  using assms
  by (auto simp: process_image_def create_job_without_key with_events_def
           split: option.splits)

lemma get_result_without_key:
  assumes "meshy_headers w = Inl e"
  shows "get_result w r task_id =
     (if requested_format r \<in> {''glb'', ''obj'', ''ply''} then (handle_exc e, [])
      else (unsupported_format_response, []))"
  using assms by (simp add: get_result_def)

text \<open>
  Claim C7, as amended. When the API credential is absent (unset or empty), no handler
  issues a network call, whatever the request. \<open>GET /api/status\<close> always answers 500 with
  the configuration error message; \<open>GET /api/result\<close> does for every supported format;
  \<open>POST /api/process-image\<close> does for every request whose options and image input were
  read and which carries an image. (A request the handler rejects on its own input gets
  that answer first: 400 or 415.)
\<close>

theorem missing_credential:
  assumes absent: "MESHY_API_KEY w = None \<or> MESHY_API_KEY w = Some []"
  shows "get_status w task_id = (Json (JObj [(''error'', JStr key_missing_message)]) 500, []) \<and>
         list_all (\<lambda>ev. \<not> is_network ev) (snd (get_result w r task_id)) \<and>
         (requested_format r \<in> {''glb'', ''obj'', ''ply''} \<longrightarrow>
            get_result w r task_id =
              (Json (JObj [(''error'', JStr key_missing_message)]) 500, [])) \<and>
         list_all (\<lambda>ev. \<not> is_network ev) (snd (process_image w r')) \<and>
         (\<forall>opts img. parse_options r' = Inr opts \<longrightarrow> parse_image w r' = Next img \<longrightarrow>
            image_bytes img \<noteq> None \<or> image_data_url img \<noteq> None \<longrightarrow>
            fst (process_image w r') = Json (JObj [(''error'', JStr key_missing_message)]) 500)"
proof -
  note key = meshy_headers_absent [OF absent]
  have status: "get_status w task_id =
      (Json (JObj [(''error'', JStr key_missing_message)]) 500, [])"
    using key by (simp add: get_status_def)
  have result: "get_result w r task_id =
     (if requested_format r \<in> {''glb'', ''obj'', ''ply''}
      then (Json (JObj [(''error'', JStr key_missing_message)]) 500, [])
      else (unsupported_format_response, []))"
    using get_result_without_key [OF key] by simp
  have create: "\<forall>opts img. parse_options r' = Inr opts \<longrightarrow> parse_image w r' = Next img \<longrightarrow>
            image_bytes img \<noteq> None \<or> image_data_url img \<noteq> None \<longrightarrow>
            fst (process_image w r') = Json (JObj [(''error'', JStr key_missing_message)]) 500"
    using process_image_without_key_response [OF key] by simp
  from status result create process_image_without_key_trace [OF key]
  show ?thesis by simp
qed

text \<open>
  The theorem in the example world without its key: a status request, a result request
  for \<open>obj\<close>, and a job request with an image URL.
\<close>

theorem missing_credential_witness:
  "MESHY_API_KEY keyless_world = None \<and>
   get_status keyless_world ''task-1'' =
     (Json (JObj [(''error'', JStr key_missing_message)]) 500, []) \<and>
   get_result keyless_world (result_request ''obj'') ''task-1'' =
     (Json (JObj [(''error'', JStr key_missing_message)]) 500, []) \<and>
   process_image keyless_world
       (json_request (Some (JObj [(''image_url'', JStr ''https://example.com/a.png'')]))) =
     (Json (JObj [(''error'', JStr key_missing_message)]) 500, [])"
proof -
  have k: "MESHY_API_KEY keyless_world = None"
    by (simp add: keyless_world_def example_world_def)
  then have absent: "MESHY_API_KEY keyless_world = None \<or> MESHY_API_KEY keyless_world = Some []"
    by simp
  have f: "requested_format (result_request ''obj'') = ''obj''"
    by (simp add: requested_format_def result_request_def lower_def lower_char_def)
  have h: "meshy_headers keyless_world = Inl (RuntimeError key_missing_message)"
    using k by (simp add: meshy_headers_def)
  have p: "process_image keyless_world
       (json_request (Some (JObj [(''image_url'', JStr ''https://example.com/a.png'')]))) =
     (Json (JObj [(''error'', JStr key_missing_message)]) 500, [])"
    by (simp add: process_image_def parse_options_def get_flag_def raw_ai_model_def
        request_json_def get_json_silent_def json_request_def dict_get_def or_empty_def
        parse_image_def is_multipart_def startswith_def create_job_def h)
  from missing_credential [OF absent, of "''task-1''" "result_request ''obj''"] f k p
  show ?thesis by simp
qed

text \<open>
  Claim C7 as stated fails: without a credential, a job request that carries no image is
  answered 400 (no image provided), not 500 with the configuration error.
\<close>

theorem missing_credential_after_validation:
  "MESHY_API_KEY keyless_world = None \<and>
   process_image keyless_world (json_request (Some (JObj [(''enable_pbr'', JBool True)]))) =
     (no_image_response, []) \<and>
   status_code no_image_response = 400"
  by (simp add: process_image_def parse_options_def get_flag_def raw_ai_model_def
        request_json_def get_json_silent_def json_request_def dict_get_def or_empty_def
        parse_image_def is_multipart_def startswith_def keyless_world_def example_world_def
        no_image_def no_image_response_def)

subsection \<open>Requests without an image\<close>

text \<open>
  The options of a form request always parse; those of a JSON request parse when the body
  is an object (or a falsy value, read as the empty object).
\<close>

lemma parse_options_form:
  "\<not> is_json r \<Longrightarrow> \<exists>opts. parse_options r = Inr opts"
  by (simp add: parse_options_def get_flag_def raw_ai_model_def split: option.splits)

lemma parse_options_json_object:
  assumes "is_json r" and "json_body r = Some body" and "or_empty body = JObj kvs"
  shows "\<exists>opts. parse_options r = Inr opts"
  using assms
  by (simp add: parse_options_def get_flag_def raw_ai_model_def request_json_def dict_get_def)

text \<open>
  What the handler answers on its own input: 415 for a content type that is neither
  multipart nor JSON, 400 for a multipart request without a (named) file and for a JSON
  object without a truthy \<open>image_base64\<close> or \<open>image_url\<close>.
\<close>

lemma process_image_unsupported_content_type:
  assumes "\<not> is_multipart r" and "\<not> is_json r"
  shows "process_image w r =
           (Json (JObj [(''error'', JStr ''Unsupported content type'')]) 415, [])"
proof -
  from parse_options_form [OF assms(2)] obtain opts where "parse_options r = Inr opts" ..
  then show ?thesis using assms by (simp add: process_image_def parse_image_def)
qed

lemma process_image_multipart_no_file:
  assumes "is_multipart r" and "\<not> is_json r"
    and "map_of (files r) ''image'' = None \<or>
         (\<exists>file. map_of (files r) ''image'' = Some file \<and> filename file = [])"
  shows "process_image w r = (no_image_response, [])"
proof -
  from parse_options_form [OF assms(2)] obtain opts where "parse_options r = Inr opts" ..
  then show ?thesis using assms(1,3)
    by (auto simp: process_image_def parse_image_def no_image_def)
qed

lemma process_image_json_no_image:
  assumes "\<not> is_multipart r" and "is_json r" and "json_body r = Some body"
    and "or_empty body = JObj kvs"
    and "map_of kvs ''image_base64'' = None \<or>
         (\<exists>v. map_of kvs ''image_base64'' = Some v \<and> \<not> truthy v)"
    and "map_of kvs ''image_url'' = None \<or>
         (\<exists>v. map_of kvs ''image_url'' = Some v \<and> \<not> truthy v)"
  shows "process_image w r = (no_image_response, [])"
proof -
  from parse_options_json_object [OF assms(2-4)] obtain opts where "parse_options r = Inr opts" ..
  then show ?thesis using assms
    by (auto simp: process_image_def parse_image_def no_image_def get_json_silent_def dict_get_def)
qed

text \<open>
  Claim C3, as amended. Of the requests to \<open>POST /api/process-image\<close> that werkzeug reads
  (its form fields, files and JSON body reach the handler): one whose \<open>Content-Type\<close> does
  not start with the string \<open>multipart/form-data\<close> (the handler's test, which is sensitive
  to case) and which werkzeug does not report as JSON is answered 415 with an error body
  (a client error of the 400 class). One whose \<open>Content-Type\<close> starts with
  \<open>multipart/form-data\<close> and whose field \<open>image\<close> holds no file with a name, and a JSON
  request whose body was parsed to an object (or to a falsy value, which the handler reads
  as the empty object) without a truthy \<open>image_base64\<close> and without a truthy
  \<open>image_url\<close>, is answered 400 with the error that no image was provided. Nothing is done
  to the outside. (werkzeug never reports a multipart request as JSON.)
\<close>

theorem process_image_rejects_missing_input:
  "(\<not> is_multipart r \<longrightarrow> \<not> is_json r \<longrightarrow>
      process_image w r = (Json (JObj [(''error'', JStr ''Unsupported content type'')]) 415, [])) \<and>
   (is_multipart r \<longrightarrow> \<not> is_json r \<longrightarrow>
      (case map_of (files r) ''image'' of None \<Rightarrow> True | Some file \<Rightarrow> filename file = []) \<longrightarrow>
      process_image w r = (no_image_response, [])) \<and>
   (\<forall>body kvs. \<not> is_multipart r \<longrightarrow> is_json r \<longrightarrow>
      json_body r = Some body \<longrightarrow> or_empty body = JObj kvs \<longrightarrow>
      (case map_of kvs ''image_base64'' of None \<Rightarrow> True | Some v \<Rightarrow> \<not> truthy v) \<longrightarrow>
      (case map_of kvs ''image_url'' of None \<Rightarrow> True | Some v \<Rightarrow> \<not> truthy v) \<longrightarrow>
      process_image w r = (no_image_response, [])) \<and>
   status_code no_image_response = 400 \<and>
   (\<exists>message. no_image_response = Json (JObj [(''error'', JStr message)]) 400 \<and>
      take 18 message = ''No image provided.'')"
proof -
  have a: "\<not> is_multipart r \<longrightarrow> \<not> is_json r \<longrightarrow>
      process_image w r = (Json (JObj [(''error'', JStr ''Unsupported content type'')]) 415, [])"
    using process_image_unsupported_content_type by blast
  have b: "is_multipart r \<longrightarrow> \<not> is_json r \<longrightarrow>
      (case map_of (files r) ''image'' of None \<Rightarrow> True | Some file \<Rightarrow> filename file = []) \<longrightarrow>
      process_image w r = (no_image_response, [])"
    using process_image_multipart_no_file [of r w] by (auto split: option.splits)
  have c: "\<forall>body kvs. \<not> is_multipart r \<longrightarrow> is_json r \<longrightarrow>
      json_body r = Some body \<longrightarrow> or_empty body = JObj kvs \<longrightarrow>
      (case map_of kvs ''image_base64'' of None \<Rightarrow> True | Some v \<Rightarrow> \<not> truthy v) \<longrightarrow>
      (case map_of kvs ''image_url'' of None \<Rightarrow> True | Some v \<Rightarrow> \<not> truthy v) \<longrightarrow>
      process_image w r = (no_image_response, [])"
  proof (intro allI impI)
    fix body kvs
    assume h: "\<not> is_multipart r" "is_json r" "json_body r = Some body" "or_empty body = JObj kvs"
      and i: "case map_of kvs ''image_base64'' of None \<Rightarrow> True | Some v \<Rightarrow> \<not> truthy v"
      and u: "case map_of kvs ''image_url'' of None \<Rightarrow> True | Some v \<Rightarrow> \<not> truthy v"
    from i have i': "map_of kvs ''image_base64'' = None \<or>
         (\<exists>v. map_of kvs ''image_base64'' = Some v \<and> \<not> truthy v)"
      by (auto split: option.splits)
    from u have u': "map_of kvs ''image_url'' = None \<or>
         (\<exists>v. map_of kvs ''image_url'' = Some v \<and> \<not> truthy v)"
      by (auto split: option.splits)
    from h i' u' show "process_image w r = (no_image_response, [])"
      by (rule process_image_json_no_image)
  qed
  have d: "status_code no_image_response = 400"
    by (simp add: no_image_response_def)
  have e: "\<exists>message. no_image_response = Json (JObj [(''error'', JStr message)]) 400 \<and>
      take 18 message = ''No image provided.''"
    by (simp add: no_image_response_def)
  from a b c d e show ?thesis by blast
qed

text \<open>
  The theorem at a \<open>text/plain\<close> request, a multipart request without file and a JSON
  object without image field.
\<close>

theorem process_image_rejects_missing_input_witness:
  "process_image example_world
      \<lparr>content_type = Some ''text/plain'', is_json = False, json_body = None,
       form = [], files = [], args = []\<rparr> =
     (Json (JObj [(''error'', JStr ''Unsupported content type'')]) 415, []) \<and>
   process_image example_world
      \<lparr>content_type = Some ''multipart/form-data; boundary=x'', is_json = False,
       json_body = None, form = [(''ai_model'', ''meshy-5'')], files = [], args = []\<rparr> =
     (no_image_response, []) \<and>
   process_image example_world (json_request (Some (JObj [(''enable_pbr'', JBool True)]))) =
     (no_image_response, []) \<and>
   status_code no_image_response = 400"
proof -
  let ?plain = "\<lparr>content_type = Some ''text/plain'', is_json = False, json_body = None,
       form = [], files = [], args = []\<rparr> :: request"
  let ?multi = "\<lparr>content_type = Some ''multipart/form-data; boundary=x'', is_json = False,
       json_body = None, form = [(''ai_model'', ''meshy-5'')], files = [], args = []\<rparr> :: request"
  let ?json = "json_request (Some (JObj [(''enable_pbr'', JBool True)]))"
  have p: "\<not> is_multipart ?plain" "\<not> is_json ?plain"
    by (simp_all add: is_multipart_def startswith_def)
  have m: "is_multipart ?multi" "\<not> is_json ?multi"
    "case map_of (files ?multi) ''image'' of None \<Rightarrow> True | Some file \<Rightarrow> filename file = []"
    by (simp_all add: is_multipart_def startswith_def)
  have j: "\<not> is_multipart ?json" "is_json ?json"
    "json_body ?json = Some (JObj [(''enable_pbr'', JBool True)])"
    "or_empty (JObj [(''enable_pbr'', JBool True)]) = JObj [(''enable_pbr'', JBool True)]"
    by (simp_all add: json_request_def is_multipart_def startswith_def or_empty_def)
  from process_image_rejects_missing_input [of ?plain example_world] p
  have 1: "process_image example_world ?plain =
     (Json (JObj [(''error'', JStr ''Unsupported content type'')]) 415, [])" by blast
  from process_image_rejects_missing_input [of ?multi example_world] m
  have 2: "process_image example_world ?multi = (no_image_response, [])" by blast
  from process_image_rejects_missing_input [of ?json example_world] j
  have 3: "process_image example_world ?json = (no_image_response, [])" by simp
  from process_image_rejects_missing_input [of ?json example_world]
  have 4: "status_code no_image_response = 400" by blast
  from 1 2 3 4 show ?thesis by blast
qed

text \<open>
  Claim C3 as stated fails: the JSON request with the body \<open>[1]\<close> carries no image source,
  yet the answer is 500 and not 400: \<open>get_flag\<close> calls \<open>.get\<close> on the list, and the
  \<open>AttributeError\<close> ends in the catch-all.
\<close>

theorem process_image_json_array_body:
  "is_json (json_request (Some (JArr [JInt 1]))) \<and>
   process_image example_world (json_request (Some (JArr [JInt 1]))) =
     (InternalServerError AttributeError, []) \<and>
   status_code (InternalServerError AttributeError) = 500"
  by (simp add: process_image_def parse_options_def get_flag_def request_json_def
        json_request_def dict_get_def or_empty_def)

text \<open>
  A JSON request whose body is not valid JSON (an empty body, for one) ends the same way:
  \<open>request.json\<close> in \<open>get_flag\<close> raises before line 205 reads the body with
  \<open>get_json(silent=True)\<close>.
\<close>

lemma process_image_unparsable_json_body:
  "process_image w (json_request None) = (InternalServerError BadRequest, [])"
  by (simp add: process_image_def parse_options_def get_flag_def request_json_def
        json_request_def)

subsection \<open>The model option\<close>

text \<open>
  The validation keeps \<open>meshy-5\<close> and maps everything else to \<open>latest\<close>.
\<close>

lemma validate_ai_model_cases:
  "validate_ai_model raw = (if raw = JStr ''meshy-5'' then ''meshy-5'' else ''latest'')"
  by (cases raw) (auto simp: validate_ai_model_def)

lemma parse_options_ai_model:
  assumes "parse_options r = Inr opts" and "raw_ai_model r = Inr raw"
  shows "ai_model opts = validate_ai_model raw"
  using assms by (auto simp: parse_options_def split: sum.splits)

lemma raw_ai_model_parse_options:
  assumes "raw_ai_model r = Inr raw"
  shows "\<exists>opts. parse_options r = Inr opts"
proof (cases "is_json r")
  case False
  then show ?thesis by (rule parse_options_form)
next
  case True
  with assms obtain body where b: "json_body r = Some body"
    by (auto simp: raw_ai_model_def request_json_def split: option.splits)
  with assms True obtain kvs where "or_empty body = JObj kvs"
    by (cases "or_empty body") (auto simp: raw_ai_model_def request_json_def dict_get_def)
  with True b show ?thesis by (rule parse_options_json_object)
qed

lemma payload_ai_model_meshy_payload:
  "payload_ai_model (meshy_payload url opts) = Inr (JStr (ai_model opts))"
  by (simp add: payload_ai_model_def meshy_payload_def dict_get_def)

lemma meta_ai_model_task_meta:
  "meta_ai_model (task_meta name opts) = Inr (JStr (ai_model opts))"
  by (simp add: meta_ai_model_def task_meta_def dict_get_def)

text \<open>
  What a run posts and stores: \<open>create_job\<close> posts at most the payload built from the
  options, and stores at most the metadata built from them.
\<close>

lemma save_meta_observed:
  assumes "save_meta w task_id meta = (res, evs)"
  shows "posted_payloads evs = []" and "list_all (\<lambda>m. m = meta) (stored_metas evs)"
  using assms by (auto simp: save_meta_def split: json.splits option.splits)

lemma create_job_observed:
  "list_all (\<lambda>p. p = meshy_payload url opts) (posted_payloads (snd (create_job w opts url name))) \<and>
   list_all (\<lambda>m. m = task_meta name opts) (stored_metas (snd (create_job w opts url name)))"
proof (cases "meshy_headers w")
  case (Inl e)
  then show ?thesis by (simp add: create_job_without_key)
next
  case (Inr hs)
  show ?thesis
    using Inr
    by (auto simp: create_job_def with_events_def save_meta_observed
             split: sum.splits prod.splits option.splits)
qed

lemma process_image_observed:
  assumes "parse_options r = Inr opts"
  shows "list_all (\<lambda>p. payload_ai_model p = Inr (JStr (ai_model opts)))
           (posted_payloads (snd (process_image w r))) \<and>
         list_all (\<lambda>m. meta_ai_model m = Inr (JStr (ai_model opts)))
           (stored_metas (snd (process_image w r)))"
proof -
  have a: "list_all (\<lambda>p. payload_ai_model p = Inr (JStr (ai_model opts)))
           (posted_payloads (snd (create_job w opts url name)))" for url name
    using create_job_observed [of url opts w name]
    by (auto simp: list_all_iff payload_ai_model_meshy_payload)
  have b: "list_all (\<lambda>m. meta_ai_model m = Inr (JStr (ai_model opts)))
           (stored_metas (snd (create_job w opts url name)))" for url name
    using create_job_observed [of url opts w name]
    by (auto simp: list_all_iff meta_ai_model_task_meta)
  show ?thesis
    using assms a b
    by (auto simp: process_image_def with_events_def split: flow.splits option.splits)
qed

text \<open>
  The run of \<open>create_job\<close> when Meshy accepts the job.
\<close>

lemma create_job_accepted:
  assumes key: "meshy_headers w = Inr hs"
    and reply: "http_post w (MESHY_API_URL w) hs (meshy_payload url opts) = Inr resp"
    and ok: "resp_ok resp"
    and body: "resp_json resp = Inr body"
    and result: "dict_get (or_empty body) ''result'' JNull = Inr (JStr task_id)"
    and nonempty: "task_id \<noteq> []"
    and dirs: "makedirs w task_id = None"
  shows "create_job w opts url name =
           (Json (JObj [(''task_id'', JStr task_id)]) 202,
            [HttpPost (MESHY_API_URL w) hs (meshy_payload url opts),
             MakeDirs task_id, WriteMeta task_id (task_meta name opts)])"
  using assms by (simp add: create_job_def with_events_def save_meta_def)

text \<open>
  Claim C6. For a request to \<open>POST /api/process-image\<close> whose \<open>ai_model\<close> can be read as
  \<open>raw\<close> (from the JSON object or the form, \<open>latest\<close> when the field is missing): the
  validated value is \<open>raw\<close> when \<open>raw\<close> is \<open>latest\<close> or \<open>meshy-5\<close> and \<open>latest\<close> for every
  other value; every payload the run posts to Meshy and every metadata record it stores
  carry the validated value; and when the rest is in order (an image was given, the
  credential is set, Meshy accepts the job with a task id, the task directory can be made)
  the answer is 202 with the task id, after exactly one post and one metadata record.
\<close>

theorem process_image_ai_model:
  assumes raw: "raw_ai_model r = Inr raw"
  shows "validate_ai_model raw \<in> {''latest'', ''meshy-5''} \<and>
         (raw \<in> {JStr ''latest'', JStr ''meshy-5''} \<longrightarrow> JStr (validate_ai_model raw) = raw) \<and>
         (raw \<notin> {JStr ''latest'', JStr ''meshy-5''} \<longrightarrow> validate_ai_model raw = ''latest'') \<and>
         (\<forall>kvs. is_json r \<longrightarrow> json_body r = Some (JObj kvs) \<longrightarrow>
            raw = (case map_of kvs ''ai_model'' of None \<Rightarrow> JStr ''latest'' | Some v \<Rightarrow> v)) \<and>
         (\<not> is_json r \<longrightarrow>
            raw = (case map_of (form r) ''ai_model'' of None \<Rightarrow> JStr ''latest'' | Some s \<Rightarrow> JStr s)) \<and>
         list_all (\<lambda>p. payload_ai_model p = Inr (JStr (validate_ai_model raw)))
           (posted_payloads (snd (process_image w r))) \<and>
         list_all (\<lambda>m. meta_ai_model m = Inr (JStr (validate_ai_model raw)))
           (stored_metas (snd (process_image w r))) \<and>
         (\<forall>img hs resp body task_id.
            parse_image w r = Next img \<longrightarrow>
            image_bytes img \<noteq> None \<or> image_data_url img \<noteq> None \<longrightarrow>
            meshy_headers w = Inr hs \<longrightarrow>
            (\<forall>payload. http_post w (MESHY_API_URL w) hs payload = Inr resp) \<longrightarrow>
            resp_ok resp \<longrightarrow> resp_json resp = Inr body \<longrightarrow>
            dict_get (or_empty body) ''result'' JNull = Inr (JStr task_id) \<longrightarrow>
            task_id \<noteq> [] \<longrightarrow> makedirs w task_id = None \<longrightarrow>
              fst (process_image w r) = Json (JObj [(''task_id'', JStr task_id)]) 202 \<and>
              map payload_ai_model (posted_payloads (snd (process_image w r))) =
                [Inr (JStr (validate_ai_model raw))] \<and>
              map meta_ai_model (stored_metas (snd (process_image w r))) =
                [Inr (JStr (validate_ai_model raw))])"
proof -
  from raw_ai_model_parse_options [OF raw] obtain opts where opts: "parse_options r = Inr opts" ..
  note am = parse_options_ai_model [OF opts raw]
  have v: "validate_ai_model raw \<in> {''latest'', ''meshy-5''}"
    "raw \<in> {JStr ''latest'', JStr ''meshy-5''} \<longrightarrow> JStr (validate_ai_model raw) = raw"
    "raw \<notin> {JStr ''latest'', JStr ''meshy-5''} \<longrightarrow> validate_ai_model raw = ''latest''"
    by (auto simp: validate_ai_model_cases)
  have src1: "\<forall>kvs. is_json r \<longrightarrow> json_body r = Some (JObj kvs) \<longrightarrow>
            raw = (case map_of kvs ''ai_model'' of None \<Rightarrow> JStr ''latest'' | Some v \<Rightarrow> v)"
    using raw
    by (auto simp: raw_ai_model_def request_json_def dict_get_def or_empty_def split: if_splits)
  have src2: "\<not> is_json r \<longrightarrow>
            raw = (case map_of (form r) ''ai_model'' of None \<Rightarrow> JStr ''latest'' | Some s \<Rightarrow> JStr s)"
    using raw by (auto simp: raw_ai_model_def)
  note obs = process_image_observed [OF opts, of w, unfolded am]
  have created: "\<forall>img hs resp body task_id.
            parse_image w r = Next img \<longrightarrow>
            image_bytes img \<noteq> None \<or> image_data_url img \<noteq> None \<longrightarrow>
            meshy_headers w = Inr hs \<longrightarrow>
            (\<forall>payload. http_post w (MESHY_API_URL w) hs payload = Inr resp) \<longrightarrow>
            resp_ok resp \<longrightarrow> resp_json resp = Inr body \<longrightarrow>
            dict_get (or_empty body) ''result'' JNull = Inr (JStr task_id) \<longrightarrow>
            task_id \<noteq> [] \<longrightarrow> makedirs w task_id = None \<longrightarrow>
              fst (process_image w r) = Json (JObj [(''task_id'', JStr task_id)]) 202 \<and>
              map payload_ai_model (posted_payloads (snd (process_image w r))) =
                [Inr (JStr (validate_ai_model raw))] \<and>
              map meta_ai_model (stored_metas (snd (process_image w r))) =
                [Inr (JStr (validate_ai_model raw))]"
  proof (intro allI impI)
    fix img hs resp body task_id
    assume img: "parse_image w r = Next img"
      and some: "image_bytes img \<noteq> None \<or> image_data_url img \<noteq> None"
      and key: "meshy_headers w = Inr hs"
      and reply: "\<forall>payload. http_post w (MESHY_API_URL w) hs payload = Inr resp"
      and ok: "resp_ok resp" and body: "resp_json resp = Inr body"
      and result: "dict_get (or_empty body) ''result'' JNull = Inr (JStr task_id)"
      and nonempty: "task_id \<noteq> []" and dirs: "makedirs w task_id = None"
    have job: "\<And>url name. create_job w opts url name =
           (Json (JObj [(''task_id'', JStr task_id)]) 202,
            [HttpPost (MESHY_API_URL w) hs (meshy_payload url opts),
             MakeDirs task_id, WriteMeta task_id (task_meta name opts)])"
      using create_job_accepted [OF key _ ok body result nonempty dirs] reply by simp
    show "fst (process_image w r) = Json (JObj [(''task_id'', JStr task_id)]) 202 \<and>
              map payload_ai_model (posted_payloads (snd (process_image w r))) =
                [Inr (JStr (validate_ai_model raw))] \<and>
              map meta_ai_model (stored_metas (snd (process_image w r))) =
                [Inr (JStr (validate_ai_model raw))]"
      using opts img some job am
      by (auto simp: process_image_def with_events_def payload_ai_model_meshy_payload
            meta_ai_model_task_meta split: option.splits)
  qed
  from v src1 src2 obs created show ?thesis by blast
qed

text \<open>
  The theorem at a JSON request with an image URL and \<open>ai_model: "bogus"\<close>.
\<close>

theorem process_image_ai_model_witness:
  "raw_ai_model (json_request (Some (JObj [(''image_url'', JStr ''https://example.com/a.png''),
       (''ai_model'', JStr ''bogus'')]))) = Inr (JStr ''bogus'') \<and>
   validate_ai_model (JStr ''bogus'') = ''latest'' \<and>
   process_image example_world
     (json_request (Some (JObj [(''image_url'', JStr ''https://example.com/a.png''),
       (''ai_model'', JStr ''bogus'')]))) =
     (Json (JObj [(''task_id'', JStr ''task-1'')]) 202,
      [HttpPost ''https://api.meshy.ai/openapi/v1/image-to-3d''
         [(''Authorization'', ''Bearer secret'')]
         (JObj [(''image_url'', JStr ''https://example.com/a.png''), (''enable_pbr'', JBool True),
                (''should_remesh'', JBool True), (''should_texture'', JBool True),
                (''ai_model'', JStr ''latest'')]),
       MakeDirs ''task-1'',
       WriteMeta ''task-1''
         (JObj [(''original_filename'', JNull),
                (''options'', JObj [(''enable_pbr'', JBool True), (''should_remesh'', JBool True),
                   (''should_texture'', JBool True), (''ai_model'', JStr ''latest'')])])])"
proof -
  let ?r = "json_request (Some (JObj [(''image_url'', JStr ''https://example.com/a.png''),
       (''ai_model'', JStr ''bogus'')]))"
  have raw: "raw_ai_model ?r = Inr (JStr ''bogus'')"
    by (simp add: raw_ai_model_def json_request_def request_json_def or_empty_def dict_get_def)
  have v: "validate_ai_model (JStr ''bogus'') = ''latest''"
    by (simp add: validate_ai_model_def)
  have run: "process_image example_world ?r =
     (Json (JObj [(''task_id'', JStr ''task-1'')]) 202,
      [HttpPost ''https://api.meshy.ai/openapi/v1/image-to-3d''
         [(''Authorization'', ''Bearer secret'')]
         (JObj [(''image_url'', JStr ''https://example.com/a.png''), (''enable_pbr'', JBool True),
                (''should_remesh'', JBool True), (''should_texture'', JBool True),
                (''ai_model'', JStr ''latest'')]),
       MakeDirs ''task-1'',
       WriteMeta ''task-1''
         (JObj [(''original_filename'', JNull),
                (''options'', JObj [(''enable_pbr'', JBool True), (''should_remesh'', JBool True),
                   (''should_texture'', JBool True), (''ai_model'', JStr ''latest'')])])])"
    by (simp add: process_image_def parse_options_def get_flag_def raw_ai_model_def
        request_json_def get_json_silent_def json_request_def dict_get_def or_empty_def
        parse_image_def is_multipart_def startswith_def create_job_def meshy_headers_def
        example_world_def with_events_def validate_ai_model_def meshy_payload_def
        save_meta_def task_meta_def)
  from process_image_ai_model [OF raw, of example_world] raw v run show ?thesis by simp
qed

subsection \<open>Base64 input\<close>

text \<open>
  The prefix stripping: with a comma, what follows the first comma; without, the string.
\<close>

lemma strip_data_uri_prefix_comma:
  assumes "s = pre @ '','' @ post" and "CHR '','' \<notin> set pre"
  shows "strip_data_uri_prefix s = post"
proof -
  have "dropWhile (\<lambda>c. c \<noteq> CHR '','') (pre @ '','' @ post) = '','' @ post"
    using assms(2) by (subst dropWhile_append2) auto
  then show ?thesis using assms(1)
    by (simp add: strip_data_uri_prefix_def after_first_comma_def)
qed

lemma strip_data_uri_prefix_plain:
  "CHR '','' \<notin> set s \<Longrightarrow> strip_data_uri_prefix s = s"
  by (simp add: strip_data_uri_prefix_def)

text \<open>
  The image input of a JSON object with a non-empty string \<open>image_base64\<close>.
\<close>

lemma parse_image_base64:
  assumes "\<not> is_multipart r" and "is_json r"
    and "json_body r = Some (JObj kvs)"
    and "map_of kvs ''image_base64'' = Some (JStr s)" and "s \<noteq> []"
  shows "parse_image w r =
           (case b64decode w (strip_data_uri_prefix s) of
              Inl e \<Rightarrow> Raise e
            | Inr bytes \<Rightarrow>
                Next \<lparr>image_bytes = Some bytes, image_data_url = None, original_filename = None\<rparr>)"
proof -
  have ne: "kvs \<noteq> []" using assms(4) by auto
  show ?thesis
    using assms ne
    by (simp add: parse_image_def get_json_silent_def or_empty_def dict_get_def
          decode_image_base64_def)
qed

lemma parse_options_ignores_image_url:
  assumes "is_json r" and "json_body r = Some (JObj kvs)" and "kvs \<noteq> []"
  shows "parse_options (r\<lparr>json_body := Some (JObj ((''image_url'', u) # kvs))\<rparr>) = parse_options r"
  using assms
  by (simp add: parse_options_def get_flag_def raw_ai_model_def request_json_def or_empty_def
        dict_get_def)

text \<open>
  Claim C10. For a JSON request whose object has a non-empty string \<open>image_base64\<close>: the
  image input is the decoded base64 string alone; whatever \<open>image_url\<close> the object gives
  does not change the run; when the string decodes and the credential is set, the upload
  is stored and the payload posted to Meshy carries \<open>data:image/png;base64,\<close> followed by
  the base64 encoding of the decoded bytes; and the string that is decoded is what follows
  the first comma of \<open>image_base64\<close> (the whole string when it has no comma).
\<close>

theorem process_image_base64_precedence:
  assumes form: "\<not> is_multipart r" "is_json r"
    and body: "json_body r = Some (JObj kvs)"
    and b64: "map_of kvs ''image_base64'' = Some (JStr s)" "s \<noteq> []"
  shows "parse_image w r =
           (case b64decode w (strip_data_uri_prefix s) of
              Inl e \<Rightarrow> Raise e
            | Inr bytes \<Rightarrow>
                Next \<lparr>image_bytes = Some bytes, image_data_url = None, original_filename = None\<rparr>) \<and>
         (\<forall>u. process_image w (r\<lparr>json_body := Some (JObj ((''image_url'', u) # kvs))\<rparr>) =
               process_image w r) \<and>
         (\<forall>bytes hs. b64decode w (strip_data_uri_prefix s) = Inr bytes \<longrightarrow>
            meshy_headers w = Inr hs \<longrightarrow>
            (\<exists>opts resp rest. parse_options r = Inr opts \<and>
               process_image w r =
                 (resp,
                  WriteUpload ''upload'' bytes #
                  HttpPost (MESHY_API_URL w) hs
                    (meshy_payload (JStr (''data:image/png;base64,'' @ b64encode bytes)) opts) #
                  rest))) \<and>
         (\<forall>pre post. s = pre @ '','' @ post \<longrightarrow> CHR '','' \<notin> set pre \<longrightarrow>
            strip_data_uri_prefix s = post) \<and>
         (CHR '','' \<notin> set s \<longrightarrow> strip_data_uri_prefix s = s)"
proof -
  have ne: "kvs \<noteq> []" using b64(1) by auto
  note img = parse_image_base64 [OF form body b64]
  have ignored: "process_image w (r\<lparr>json_body := Some (JObj ((''image_url'', u) # kvs))\<rparr>) =
      process_image w r" for u
  proof -
    let ?r' = "r\<lparr>json_body := Some (JObj ((''image_url'', u) # kvs))\<rparr>"
    have m: "\<not> is_multipart ?r'" "is_json ?r'" using form by (simp_all add: is_multipart_def)
    have b: "json_body ?r' = Some (JObj ((''image_url'', u) # kvs))" by simp
    have k: "map_of ((''image_url'', u) # kvs) ''image_base64'' = Some (JStr s)"
      using b64(1) by simp
    have pi: "parse_image w ?r' = parse_image w r"
      unfolding parse_image_base64 [OF m b k b64(2)] img ..
    have po: "parse_options ?r' = parse_options r"
      using form(2) body ne by (rule parse_options_ignores_image_url)
    show ?thesis unfolding process_image_def pi po ..
  qed
  from parse_options_json_object [OF form(2) body] ne
  obtain opts where opts: "parse_options r = Inr opts" by (auto simp: or_empty_def)
  have sent: "\<exists>opts resp rest. parse_options r = Inr opts \<and>
               process_image w r =
                 (resp,
                  WriteUpload ''upload'' bytes #
                  HttpPost (MESHY_API_URL w) hs
                    (meshy_payload (JStr (''data:image/png;base64,'' @ b64encode bytes)) opts) #
                  rest)"
    if dec: "b64decode w (strip_data_uri_prefix s) = Inr bytes" and key: "meshy_headers w = Inr hs"
    for bytes hs
  proof -
    obtain resp rest where job:
      "create_job w opts (data_url bytes) None =
         (resp, HttpPost (MESHY_API_URL w) hs (meshy_payload (data_url bytes) opts) # rest)"
      using key by (cases "create_job w opts (data_url bytes) None")
        (auto simp: create_job_def with_events_def)
    have "process_image w r =
        (resp, WriteUpload ''upload'' bytes #
           HttpPost (MESHY_API_URL w) hs (meshy_payload (data_url bytes) opts) # rest)"
      using opts img dec job
      by (simp add: process_image_def with_events_def upload_name_def)
    with opts show ?thesis by (auto simp: data_url_def)
  qed
  from img ignored sent strip_data_uri_prefix_comma strip_data_uri_prefix_plain
  show ?thesis by blast
qed

text \<open>
  The theorem at \<open>image_base64 = "data:image/png;base64,aGk="\<close> (the bytes \<open>hi\<close>) sent
  together with an \<open>image_url\<close>.
\<close>

theorem process_image_base64_precedence_witness:
  "process_image example_world
     (json_request (Some (JObj [(''image_base64'', JStr ''data:image/png;base64,aGk=''),
        (''image_url'', JStr ''https://example.com/a.png'')]))) =
     (Json (JObj [(''task_id'', JStr ''task-1'')]) 202,
      [WriteUpload ''upload'' ''hi'',
       HttpPost ''https://api.meshy.ai/openapi/v1/image-to-3d''
         [(''Authorization'', ''Bearer secret'')]
         (JObj [(''image_url'', JStr ''data:image/png;base64,aGk=''), (''enable_pbr'', JBool True),
                (''should_remesh'', JBool True), (''should_texture'', JBool True),
                (''ai_model'', JStr ''latest'')]),
       MakeDirs ''task-1'',
       WriteMeta ''task-1''
         (JObj [(''original_filename'', JNull),
                (''options'', JObj [(''enable_pbr'', JBool True), (''should_remesh'', JBool True),
                   (''should_texture'', JBool True), (''ai_model'', JStr ''latest'')])])]) \<and>
   strip_data_uri_prefix ''data:image/png;base64,aGk='' = ''aGk=''"
proof -
  let ?kvs = "[(''image_base64'', JStr ''data:image/png;base64,aGk=''),
        (''image_url'', JStr ''https://example.com/a.png'')]"
  let ?r = "json_request (Some (JObj ?kvs))"
  have a: "\<not> is_multipart ?r" "is_json ?r" "json_body ?r = Some (JObj ?kvs)"
    by (simp_all add: json_request_def is_multipart_def startswith_def)
  have b: "map_of ?kvs ''image_base64'' = Some (JStr ''data:image/png;base64,aGk='')"
    "''data:image/png;base64,aGk='' \<noteq> []"
    by simp_all
  have strip: "strip_data_uri_prefix ''data:image/png;base64,aGk='' = ''aGk=''"
    by (simp add: strip_data_uri_prefix_def after_first_comma_def)
  have enc: "b64encode ''hi'' = ''aGk=''"
    by (simp add: b64encode_def b64_symbol_def)
  have opts: "parse_options ?r = Inr \<lparr>enable_pbr = True, should_remesh = True,
      should_texture = True, ai_model = ''latest''\<rparr>"
    by (simp add: parse_options_def get_flag_def raw_ai_model_def request_json_def
          json_request_def or_empty_def dict_get_def validate_ai_model_def)
  have job: "create_job example_world \<lparr>enable_pbr = True, should_remesh = True,
      should_texture = True, ai_model = ''latest''\<rparr> (JStr ''data:image/png;base64,aGk='') None =
     (Json (JObj [(''task_id'', JStr ''task-1'')]) 202,
      [HttpPost ''https://api.meshy.ai/openapi/v1/image-to-3d''
         [(''Authorization'', ''Bearer secret'')]
         (JObj [(''image_url'', JStr ''data:image/png;base64,aGk=''), (''enable_pbr'', JBool True),
                (''should_remesh'', JBool True), (''should_texture'', JBool True),
                (''ai_model'', JStr ''latest'')]),
       MakeDirs ''task-1'',
       WriteMeta ''task-1''
         (JObj [(''original_filename'', JNull),
                (''options'', JObj [(''enable_pbr'', JBool True), (''should_remesh'', JBool True),
                   (''should_texture'', JBool True), (''ai_model'', JStr ''latest'')])])])"
    by (simp add: create_job_def meshy_headers_def example_world_def with_events_def
          meshy_payload_def save_meta_def task_meta_def dict_get_def or_empty_def)
  have dec: "b64decode example_world ''aGk='' = Inr ''hi''"
    by (simp add: example_world_def)
  from process_image_base64_precedence [OF a b, of example_world]
  have "parse_image example_world ?r =
      Next \<lparr>image_bytes = Some ''hi'', image_data_url = None, original_filename = None\<rparr>"
    by (simp add: strip dec)
  then show ?thesis
    using opts job strip enc
    by (simp add: process_image_def with_events_def upload_name_def data_url_def)
qed

end
